theory Spec2Isabelle
  imports Main "HOL-Library.Sublist" "HOL-Library.List_Lexorder" "HOL-Library.Product_Lexorder"
begin

section \<open>Strings, errors and the libraries outside the repository\<close>

text \<open>
  A Python \<open>str\<close> is a sequence of Unicode code points, so \<open>len\<close> is \<open>length\<close> and
  string comparison is the lexicographic order of the code points. A \<open>bytes\<close> object is a
  list of numbers below 256. Column names of a DataFrame are Isabelle strings.
\<close>

type_synonym pystr = "nat list"

definition ascii :: "string \<Rightarrow> pystr" where
  "ascii s = map of_char s"

text \<open>The exceptions the modelled code can raise.\<close>

datatype py_error =
  UnicodeEncodeError | UnicodeDecodeError | KeyError | ValueError | OutOfBoundsDatetime

text \<open>
  The tables and functions the repository takes from outside (the \<open>emoji\<close> package, Python's
  Unicode database, the time zone database) are parameters of the model:
  \<^item> \<open>EMOJI_DATA\<close>: the keys of \<open>emoji.EMOJI_DATA\<close>, in the dictionary's order;
  \<^item> \<open>emoji_count\<close>: the function \<open>emoji.emoji_count\<close>;
  \<^item> \<open>unicode_alnum\<close>, \<open>unicode_decimal\<close>, \<open>unicode_space\<close>: what \<open>\w\<close>, \<open>\d\<close> and
    \<open>\s\<close> (and \<open>str.split\<close>) accept among the code points from 128 on;
  \<^item> \<open>toronto_offset\<close>: the offset from UTC of the zone America/Toronto, in milliseconds,
    at an instant given in milliseconds since the epoch;
  \<^item> \<open>in_bounds\<close>: the instants, in milliseconds since the epoch, that pandas can hold as
    a time stamp and convert to that zone (its time stamps count nanoseconds in 64 bits and
    span the years 1677 to 2262); on any other \<open>pd.to_datetime\<close> raises
    OutOfBoundsDatetime.
\<close>

record env =
  EMOJI_DATA :: "pystr list"
  emoji_count :: "pystr \<Rightarrow> nat"
  unicode_alnum :: "nat \<Rightarrow> bool"
  unicode_decimal :: "nat \<Rightarrow> bool"
  unicode_space :: "nat \<Rightarrow> bool"
  toronto_offset :: "int \<Rightarrow> int"
  in_bounds :: "int \<Rightarrow> bool"

text \<open>
  A loop or \<open>Series.apply\<close> that calls a function which may raise: the first exception
  ends it.
\<close>

fun for_each :: "('a \<Rightarrow> py_error + 'b) \<Rightarrow> 'a list \<Rightarrow> py_error + 'b list" where
  "for_each f [] = Inr []"
| "for_each f (x # xs) =
     (case f x of
        Inl e \<Rightarrow> Inl e
      | Inr y \<Rightarrow> (case for_each f xs of Inl e \<Rightarrow> Inl e | Inr ys \<Rightarrow> Inr (y # ys)))"

text \<open>\<open>pat in s\<close>, which is also \<open>Series.str.contains(pat)\<close> for a pattern of letters.\<close>

fun str_contains :: "pystr \<Rightarrow> pystr \<Rightarrow> bool" where
  "str_contains pat [] = (pat = [])"
| "str_contains pat (c # cs) = (prefix pat (c # cs) \<or> str_contains pat cs)"

definition http :: pystr where
  "http = ascii ''http''"

section \<open>chat\_features.py: text\<close>

subsection \<open>unicode\_emoji\_converter\<close>

text \<open>\<open>str.encode('latin1')\<close>: every code point must be below 256.\<close>

definition latin1_encode :: "pystr \<Rightarrow> py_error + nat list" where
  "latin1_encode s = (if list_all (\<lambda>c. c < 256) s then Inr s else Inl UnicodeEncodeError)"

definition continuation :: "nat \<Rightarrow> bool" where
  "continuation b = (128 \<le> b \<and> b \<le> 191)"

text \<open>
  The code point that starts with the byte \<open>b0\<close>, and the bytes after it. Python's decoder
  is strict: it refuses a truncated or overlong sequence, a surrogate and a value above
  U+10FFFF.
\<close>

definition utf8_next :: "nat \<Rightarrow> nat list \<Rightarrow> (nat \<times> nat list) option" where
  "utf8_next b0 bs =
    (if b0 < 128 then Some (b0, bs)
     else if 194 \<le> b0 \<and> b0 \<le> 223 then
       (case bs of
          b1 # r \<Rightarrow>
            if continuation b1 then Some ((b0 - 192) * 64 + (b1 - 128), r) else None
        | _ \<Rightarrow> None)
     else if 224 \<le> b0 \<and> b0 \<le> 239 then
       (case bs of
          b1 # b2 # r \<Rightarrow>
            if (if b0 = 224 then 160 \<le> b1 \<and> b1 \<le> 191
                else if b0 = 237 then 128 \<le> b1 \<and> b1 \<le> 159
                else continuation b1) \<and> continuation b2
            then Some ((b0 - 224) * 4096 + (b1 - 128) * 64 + (b2 - 128), r)
            else None
        | _ \<Rightarrow> None)
     else if 240 \<le> b0 \<and> b0 \<le> 244 then
       (case bs of
          b1 # b2 # b3 # r \<Rightarrow>
            if (if b0 = 240 then 144 \<le> b1 \<and> b1 \<le> 191
                else if b0 = 244 then 128 \<le> b1 \<and> b1 \<le> 143
                else continuation b1) \<and> continuation b2 \<and> continuation b3
            then Some ((b0 - 240) * 262144 + (b1 - 128) * 4096 + (b2 - 128) * 64 + (b3 - 128), r)
            else None
        | _ \<Rightarrow> None)
     else None)"

lemma utf8_next_length: "utf8_next b0 bs = Some (c, r) \<Longrightarrow> length r \<le> length bs"
  by (auto simp: utf8_next_def split: if_splits list.splits)

text \<open>\<open>bytes.decode('utf8')\<close>.\<close>

function utf8_decode :: "nat list \<Rightarrow> py_error + pystr" where
  "utf8_decode [] = Inr []"
| "utf8_decode (b0 # bs) =
    (case utf8_next b0 bs of
       None \<Rightarrow> Inl UnicodeDecodeError
     | Some (c, r) \<Rightarrow>
         (case utf8_decode r of Inl e \<Rightarrow> Inl e | Inr cs \<Rightarrow> Inr (c # cs)))"
  by pat_completeness auto
termination
  by (relation "measure length") (auto dest: utf8_next_length simp: less_Suc_eq_le)

text \<open>
  \<^verbatim>\<open>converted_str = unicode_str.encode('latin1').decode('utf8')\<close>, with nothing around it
  that catches an exception.
\<close>

definition unicode_emoji_converter :: "pystr \<Rightarrow> py_error + pystr" where
  "unicode_emoji_converter unicode_str =
     (case latin1_encode unicode_str of
        Inl e \<Rightarrow> Inl e
      | Inr bytes \<Rightarrow> utf8_decode bytes)"

subsection \<open>get\_emoji\_regexp and keep\_only\_emojis\<close>

text \<open>
  \<open>sorted(xs, key=len, reverse=True)\<close>: Python reverses the list, sorts it stably and
  reverses the result, so that equal keys keep their order.
\<close>

definition sorted_len_reverse :: "pystr list \<Rightarrow> pystr list" where
  "sorted_len_reverse xs = rev (sort_key length (rev xs))"

text \<open>
  The compiled pattern is one group with an alternation of the escaped emoji, that is, of
  literal strings: the model keeps the list of alternatives in the pattern's order.
\<close>

definition get_emoji_regexp :: "env \<Rightarrow> pystr list" where
  "get_emoji_regexp E = sorted_len_reverse (EMOJI_DATA E)"

text \<open>
  An alternation of literals at the start of \<open>t\<close>: the alternatives are tried from left to
  right and the first that matches is taken.
\<close>

fun first_match :: "pystr list \<Rightarrow> pystr \<Rightarrow> pystr option" where
  "first_match [] t = None"
| "first_match (a # as) t = (if prefix a t then Some a else first_match as t)"

text \<open>
  \<open>exp.findall(text)\<close>: the matches from left to right, none overlapping another; where
  nothing matches, the scan moves one character on. (An empty alternative, which
  \<open>emoji.EMOJI_DATA\<close> does not have, would match the empty string wherever no other
  alternative matches.)
\<close>

function findall :: "pystr list \<Rightarrow> pystr \<Rightarrow> pystr list" where
  "findall alts [] = (case first_match alts [] of None \<Rightarrow> [] | Some m \<Rightarrow> [m])"
| "findall alts (c # cs) =
     (case first_match alts (c # cs) of
        None \<Rightarrow> findall alts cs
      | Some m \<Rightarrow>
          (if m = [] then [] # findall alts cs
           else m # findall alts (drop (length m) (c # cs))))"
  by pat_completeness auto
termination
  by (relation "measure (\<lambda>(alts, t). length t)") auto

definition keep_only_emojis :: "env \<Rightarrow> pystr \<Rightarrow> pystr list" where
  "keep_only_emojis E text = findall (get_emoji_regexp E) text"

subsection \<open>words\_without\_punctuation, prep\_text and word\_count\<close>

text \<open>
  \<open>string.punctuation\<close> is the 32 ASCII characters from \<open>!\<close> to \<open>/\<close>, \<open>:\<close> to \<open>@\<close>,
  \<open>[\<close> to the backquote and \<open>{\<close> to \<open>~\<close>.
\<close>

definition string_punctuation :: "nat \<Rightarrow> bool" where
  "string_punctuation c =
     ((33 \<le> c \<and> c \<le> 47) \<or> (58 \<le> c \<and> c \<le> 64) \<or> (91 \<le> c \<and> c \<le> 96) \<or> (123 \<le> c \<and> c \<le> 126))"

definition words_without_punctuation :: "pystr \<Rightarrow> pystr" where
  "words_without_punctuation text = filter (\<lambda>c. \<not> string_punctuation c) text"

definition ascii_letter :: "nat \<Rightarrow> bool" where
  "ascii_letter c = ((65 \<le> c \<and> c \<le> 90) \<or> (97 \<le> c \<and> c \<le> 122))"

definition upper :: "nat \<Rightarrow> nat" where
  "upper c = (if 97 \<le> c \<and> c \<le> 122 then c - 32 else c)"

definition lower :: "nat \<Rightarrow> nat" where
  "lower c = (if 65 \<le> c \<and> c \<le> 90 then c + 32 else c)"

text \<open>The character classes \<open>\w\<close>, \<open>\d\<close> and \<open>\s\<close> of a \<open>str\<close> pattern.\<close>

definition re_w :: "env \<Rightarrow> nat \<Rightarrow> bool" where
  "re_w E c =
     (if c < 128 then ascii_letter c \<or> (48 \<le> c \<and> c \<le> 57) \<or> c = 95 else unicode_alnum E c)"

definition re_d :: "env \<Rightarrow> nat \<Rightarrow> bool" where
  "re_d E c = (if c < 128 then 48 \<le> c \<and> c \<le> 57 else unicode_decimal E c)"

definition re_s :: "env \<Rightarrow> nat \<Rightarrow> bool" where
  "re_s E c =
     (if c < 128 then (9 \<le> c \<and> c \<le> 13) \<or> (28 \<le> c \<and> c \<le> 32) else unicode_space E c)"

text \<open>
  The optional group \<open>('[A-Za-z]+)?\<close> after a run of letters: an apostrophe and the letters
  after it, when there is one at least.
\<close>

definition apostrophe_group :: "pystr \<Rightarrow> pystr" where
  "apostrophe_group t =
     (case t of
        q # l # rs \<Rightarrow> if q = 39 \<and> ascii_letter l then q # l # takeWhile ascii_letter rs else []
      | _ \<Rightarrow> [])"

text \<open>
  \<^verbatim>\<open>re.sub(r"[A-Za-z]+('[A-Za-z]+)?", lambda mo: mo.group(0)[0].upper() + mo.group(0)[1:].lower(), s)\<close>
\<close>

function capitalize :: "pystr \<Rightarrow> pystr" where
  "capitalize [] = []"
| "capitalize (c # cs) =
     (if ascii_letter c then
        (let run = takeWhile ascii_letter cs;
             grp = apostrophe_group (dropWhile ascii_letter cs)
         in upper c # map lower (run @ grp) @ capitalize (drop (length run + length grp) cs))
      else c # capitalize cs)"
  by pat_completeness auto
termination
  by (relation "measure length") auto

text \<open>\<open>str.split()\<close>: the maximal runs of characters that are not whitespace.\<close>

fun split_acc :: "(nat \<Rightarrow> bool) \<Rightarrow> pystr \<Rightarrow> pystr \<Rightarrow> pystr list" where
  "split_acc sp cur [] = (if cur = [] then [] else [cur])"
| "split_acc sp cur (c # cs) =
     (if sp c then (if cur = [] then split_acc sp [] cs else cur # split_acc sp [] cs)
      else split_acc sp (cur @ [c]) cs)"

definition str_split :: "env \<Rightarrow> pystr \<Rightarrow> pystr list" where
  "str_split E s = split_acc (re_s E) [] s"

text \<open>
  \<open>prep_text(s, cap)\<close>; the substitution \<^verbatim>\<open>re.sub(r'[^\w\d\s\']+', '', s)\<close> keeps the
  characters of the three classes and the apostrophe.
\<close>

definition prep_text :: "env \<Rightarrow> bool \<Rightarrow> pystr \<Rightarrow> pystr list" where
  "prep_text E cap s =
     (let s1 = (if cap then capitalize s else s);
          s2 = filter (\<lambda>c. re_w E c \<or> re_d E c \<or> re_s E c \<or> c = 39) s1
      in str_split E s2)"

definition word_count :: "env \<Rightarrow> pystr \<Rightarrow> nat" where
  "word_count E s = length (prep_text E False s)"

section \<open>The exported files and the tables\<close>

text \<open>
  One entry of the \<open>messages\<close> list of an export file. A key that the entry does not have
  is \<open>None\<close>, which the DataFrame holds as NaN; \<open>other\<close> lists the entry's further keys
  (photos, reactions, share, ...) that have a value.
\<close>

record raw_message =
  sender_name :: pystr
  timestamp_ms :: int
  content :: "pystr option"
  call_duration :: "int option"
  other :: "string list"

record chat_file =
  title :: pystr
  messages :: "raw_message list"

text \<open>
  A row of the concatenated raw table: the message and, in all\_folders.py, the column
  \<open>Title\<close> that \<open>chat_db\<close> adds.
\<close>

type_synonym raw_row = "pystr option \<times> raw_message"

text \<open>What \<open>os.listdir\<close> finds in the parent directory: a file, or a folder with its \<open>*.json\<close> files.\<close>

datatype dir_entry = File | Folder "chat_file list"

text \<open>
  The rows of the cleaned table, as its columns come into being: the projected columns, then
  \<open>Word Count\<close>, then \<open>Emoji Count\<close>. \<open>Date\<close> is the local day (days since the epoch)
  and \<open>Time\<close> the local time of day (milliseconds since midnight); \<open>Title\<close> and
  \<open>Call_Duration\<close> are \<open>None\<close> where the table has no such column, and
  \<open>Call_Duration\<close> also where the value is NaN.
\<close>

record frame_row =
  Sender :: pystr
  Title :: "pystr option"
  Timestamp :: int
  Date :: int
  Time :: int
  Message :: pystr
  Call_Duration :: "int option"

record counted_row = frame_row +
  Word_Count :: nat

record message_row = counted_row +
  Emoji_Count :: nat

record table =
  columns :: "string list"
  rows :: "message_row list"

text \<open>\<open>pd.concat(dfs)\<close> raises ValueError (no objects to concatenate) on an empty list.\<close>

definition pd_concat :: "'a list list \<Rightarrow> py_error + 'a list" where
  "pd_concat dfs = (if dfs = [] then Inl ValueError else Inr (concat dfs))"

text \<open>The columns \<open>content\<close> and \<open>call_duration\<close> exist when some entry has the key.\<close>

definition has_content :: "raw_row list \<Rightarrow> bool" where
  "has_content df = list_ex (\<lambda>x. content (snd x) \<noteq> None) df"

definition has_call_duration :: "raw_row list \<Rightarrow> bool" where
  "has_call_duration df = list_ex (\<lambda>x. call_duration (snd x) \<noteq> None) df"

text \<open>
  \<^verbatim>\<open>cleaned_df[cleaned_df[purge_columns].isna().all(axis=1)]\<close>: a row stays when each of
  its further keys is a retained column.
\<close>

definition purge :: "string list \<Rightarrow> raw_row list \<Rightarrow> raw_row list" where
  "purge retain_columns df = filter (\<lambda>x. list_all (\<lambda>k. k \<in> set retain_columns) (other (snd x))) df"

text \<open>The local date and time of the time stamp, which \<open>chat_db\<close> converted to America/Toronto.\<close>

definition local_ms :: "env \<Rightarrow> int \<Rightarrow> int" where
  "local_ms E ts = ts + toronto_offset E ts"

definition dt_date :: "env \<Rightarrow> int \<Rightarrow> int" where
  "dt_date E ts = local_ms E ts div 86400000"

definition dt_time :: "env \<Rightarrow> int \<Rightarrow> int" where
  "dt_time E ts = local_ms E ts mod 86400000"

text \<open>
  The columns \<open>Date\<close> and \<open>Time\<close>, the renaming and the column order, then
  \<open>dropna(subset=["Message"])\<close>: a row without \<open>content\<close> gives no row.
\<close>

definition project :: "env \<Rightarrow> raw_row \<Rightarrow> frame_row option" where
  "project E x =
     (case content (snd x) of
        None \<Rightarrow> None
      | Some m \<Rightarrow>
          Some \<lparr>Sender = sender_name (snd x), Title = fst x,
                Timestamp = timestamp_ms (snd x),
                Date = dt_date E (timestamp_ms (snd x)),
                Time = dt_time E (timestamp_ms (snd x)),
                Message = m, Call_Duration = call_duration (snd x)\<rparr>)"

definition dropna_Message :: "env \<Rightarrow> raw_row list \<Rightarrow> frame_row list" where
  "dropna_Message E df = List.map_filter (project E) df"

text \<open>\<^verbatim>\<open>cleaned_df['Message'].apply(chat_features.unicode_emoji_converter)\<close>\<close>

definition repair :: "frame_row \<Rightarrow> py_error + frame_row" where
  "repair r =
     (case unicode_emoji_converter (Message r) of
        Inl e \<Rightarrow> Inl e
      | Inr m \<Rightarrow> Inr (r\<lparr>Message := m\<rparr>))"

text \<open>\<^verbatim>\<open>cleaned_df["Word Count"] = cleaned_df["Message"].map(chat_features.word_count)\<close>\<close>

definition add_word_count :: "env \<Rightarrow> frame_row \<Rightarrow> counted_row" where
  "add_word_count E r = frame_row.extend r (counted_row.fields (word_count E (Message r)))"

text \<open>\<^verbatim>\<open>cleaned_df[cleaned_df["Call Duration (Sec)"] != 0]\<close>: NaN is not equal to 0.\<close>

definition drop_zero_calls :: "counted_row list \<Rightarrow> counted_row list" where
  "drop_zero_calls df = filter (\<lambda>r. Call_Duration r \<noteq> Some 0) df"

text \<open>
  \<^verbatim>\<open>cleaned_df.loc[cleaned_df["Call Duration (Sec)"] >= 0, "Word Count"] = 0\<close>: the
  comparison is false on NaN.
\<close>

definition zero_call_words :: "counted_row list \<Rightarrow> counted_row list" where
  "zero_call_words df =
     map (\<lambda>r. case Call_Duration r of
                 Some d \<Rightarrow> if 0 \<le> d then r\<lparr>Word_Count := 0\<rparr> else r
               | None \<Rightarrow> r) df"

text \<open>\<^verbatim>\<open>cleaned_df.loc[cleaned_df['Message'].str.contains('http'), "Word Count"] = 0\<close>\<close>

definition zero_url_words :: "counted_row list \<Rightarrow> counted_row list" where
  "zero_url_words df =
     map (\<lambda>r. if str_contains http (Message r) then r\<lparr>Word_Count := 0\<rparr> else r) df"

text \<open>\<^verbatim>\<open>cleaned_df['Emoji Count'] = cleaned_df['Message'].apply(emoji.emoji_count)\<close>\<close>

definition add_emoji_count :: "env \<Rightarrow> counted_row \<Rightarrow> message_row" where
  "add_emoji_count E r = counted_row.extend r (message_row.fields (emoji_count E (Message r)))"

section \<open>single\_folder.py\<close>

text \<open>
  \<open>chat_db\<close>: for an empty \<open>messages\<close> list the DataFrame has no column, and
  \<open>chat_logs['timestamp_ms']\<close> raises KeyError. The conversion of the column raises
  OutOfBoundsDatetime when one of its time stamps is out of the bounds of pandas; otherwise
  it keeps the instant, whose local fields are read by \<open>dt_date\<close> and \<open>dt_time\<close>.
  The name of the index, which only labels the table, is not modelled.
\<close>

definition sf_chat_db :: "env \<Rightarrow> chat_file \<Rightarrow> py_error + raw_row list" where
  "sf_chat_db E json_file =
     (if messages json_file = [] then Inl KeyError
      else if list_all (\<lambda>m. in_bounds E (timestamp_ms m)) (messages json_file)
      then Inr (map (\<lambda>m. (None, m)) (messages json_file))
      else Inl OutOfBoundsDatetime)"

text \<open>\<open>all_messages\<close>; the directory is the list of its \<open>*.json\<close> files, as \<open>glob\<close> gives them.\<close>

definition sf_all_messages :: "env \<Rightarrow> chat_file list \<Rightarrow> py_error + raw_row list" where
  "sf_all_messages E directory =
     (case for_each (sf_chat_db E) directory of
        Inl e \<Rightarrow> Inl e
      | Inr dfs \<Rightarrow> pd_concat dfs)"

definition sf_retain_columns :: "string list" where
  "sf_retain_columns = [''sender_name'', ''timestamp_ms'', ''content'', ''call_duration'']"

text \<open>
  \<open>clean_messages\<close> of single\_folder.py. \<open>cleaned_df[column_order]\<close> raises KeyError when
  there is no column \<open>Message\<close>. \<open>sort_values("timestamp_ms")\<close> orders the rows by the
  instant; pandas fixes no order among rows with equal keys, the model keeps theirs.
\<close>

definition sf_clean_messages :: "env \<Rightarrow> chat_file list \<Rightarrow> py_error + table" where
  "sf_clean_messages E directory =
     (case sf_all_messages E directory of
        Inl e \<Rightarrow> Inl e
      | Inr raw \<Rightarrow>
          (let kept = purge sf_retain_columns raw;
               column_order =
                 (if has_call_duration raw
                  then [''Sender'', ''timestamp_ms'', ''Date'', ''Time'', ''Message'',
                        ''Call Duration (Sec)'']
                  else [''Sender'', ''timestamp_ms'', ''Date'', ''Time'', ''Message''])
           in if \<not> has_content raw then Inl KeyError
              else
                (let present = dropna_Message E kept;
                     ordered = sort_key Timestamp present
                 in case for_each repair ordered of
                      Inl e \<Rightarrow> Inl e
                    | Inr repaired \<Rightarrow>
                        (let counted = map (add_word_count E) repaired;
                             calls =
                               (if ''Call Duration (Sec)'' \<in> set column_order
                                then zero_call_words (drop_zero_calls counted)
                                else counted);
                             urls = zero_url_words calls
                         in Inr \<lparr>columns = column_order @ [''Word Count'', ''Emoji Count''],
                                 rows = map (add_emoji_count E) urls\<rparr>))))"

section \<open>all\_folders.py\<close>

text \<open>\<open>chat_db\<close>: as above, with the column \<open>Title\<close>.\<close>

definition af_chat_db :: "env \<Rightarrow> chat_file \<Rightarrow> py_error + raw_row list" where
  "af_chat_db E json_file =
     (if messages json_file = [] then Inl KeyError
      else if list_all (\<lambda>m. in_bounds E (timestamp_ms m)) (messages json_file)
      then Inr (map (\<lambda>m. (Some (title json_file), m)) (messages json_file))
      else Inl OutOfBoundsDatetime)"

definition af_all_messages :: "env \<Rightarrow> chat_file list \<Rightarrow> py_error + raw_row list" where
  "af_all_messages E directory =
     (case for_each (af_chat_db E) directory of
        Inl e \<Rightarrow> Inl e
      | Inr dfs \<Rightarrow> pd_concat dfs)"

text \<open>\<open>all_folder\<close>: the entries that are directories, each through \<open>all_messages\<close>.\<close>

fun folders :: "dir_entry list \<Rightarrow> chat_file list list" where
  "folders [] = []"
| "folders (File # es) = folders es"
| "folders (Folder fs # es) = fs # folders es"

definition all_folder :: "env \<Rightarrow> dir_entry list \<Rightarrow> py_error + raw_row list" where
  "all_folder E directory =
     (case for_each (af_all_messages E) (folders directory) of
        Inl e \<Rightarrow> Inl e
      | Inr df_list \<Rightarrow> pd_concat df_list)"

definition af_retain_columns :: "string list" where
  "af_retain_columns = [''sender_name'', ''timestamp_ms'', ''content'', ''call_duration'', ''Title'']"

text \<open>
  \<open>clean_messages\<close> of all\_folders.py. The column order names \<open>Message\<close> and
  \<open>Call Duration (Sec)\<close> whatever the columns, so \<open>cleaned_df[column_order]\<close> raises
  KeyError when one of them is missing. The rows are sorted by \<open>Date\<close>, then \<open>Time\<close>.
\<close>

definition af_clean_messages :: "env \<Rightarrow> dir_entry list \<Rightarrow> py_error + table" where
  "af_clean_messages E directory =
     (case all_folder E directory of
        Inl e \<Rightarrow> Inl e
      | Inr raw \<Rightarrow>
          (let kept = purge af_retain_columns raw;
               column_order = [''Sender'', ''Title'', ''timestamp_ms'', ''Date'', ''Time'',
                               ''Message'', ''Call Duration (Sec)'']
           in if has_content raw \<and> has_call_duration raw then
                (let present = dropna_Message E kept;
                     ordered = sort_key (\<lambda>r. (Date r, Time r)) present
                 in case for_each repair ordered of
                      Inl e \<Rightarrow> Inl e
                    | Inr repaired \<Rightarrow>
                        (let counted = map (add_word_count E) repaired;
                             calls = zero_call_words (drop_zero_calls counted);
                             urls = zero_url_words calls
                         in Inr \<lparr>columns = column_order @ [''Word Count'', ''Emoji Count''],
                                 rows = map (add_emoji_count E) urls\<rparr>))
              else Inl KeyError))"

section \<open>chat\_features.py: statistics\<close>

text \<open>\<open>' '.join(words)\<close>\<close>

fun join :: "pystr list \<Rightarrow> pystr" where
  "join [] = []"
| "join [w] = w"
| "join (w # v # ws) = w @ 32 # join (v # ws)"

text \<open>The keys of \<open>groupby("Sender")\<close>, which come sorted.\<close>

definition group_keys :: "'a message_row_scheme list \<Rightarrow> pystr list" where
  "group_keys df = sort (remdups (map Sender df))"

definition group :: "pystr \<Rightarrow> 'a message_row_scheme list \<Rightarrow> 'a message_row_scheme list" where
  "group s df = filter (\<lambda>r. Sender r = s) df"

text \<open>The sum of a group's call durations, which skips NaN.\<close>

definition call_total :: "'a message_row_scheme list \<Rightarrow> int" where
  "call_total df = sum_list (map (\<lambda>r. case Call_Duration r of None \<Rightarrow> 0 | Some d \<Rightarrow> d) df)"

text \<open>\<^verbatim>\<open>~(df['Call Duration (Sec)'] > 0)\<close>: true on NaN.\<close>

definition not_positive_call :: "'a message_row_scheme \<Rightarrow> bool" where
  "not_positive_call r = (case Call_Duration r of None \<Rightarrow> True | Some d \<Rightarrow> \<not> 0 < d)"

text \<open>
  A row of the statistics: the count of the messages, the sum of the word counts and, when
  the table has the column, the sum of the call durations. \<open>None\<close> is NaN.
\<close>

record stat_row =
  Message_count :: "nat option"
  Word_Count_sum :: "nat option"
  Call_Duration_sum :: "int option"

text \<open>The sum of a column, which skips NaN.\<close>

definition nansum :: "'a::comm_monoid_add option list \<Rightarrow> 'a" where
  "nansum vs = sum_list (map (\<lambda>v. case v of None \<Rightarrow> 0 | Some d \<Rightarrow> d) vs)"

text \<open>\<open>stats_df.agg(["sum"])\<close>: the sum of each column that the table has.\<close>

definition total_row :: "bool \<Rightarrow> (pystr \<times> stat_row) list \<Rightarrow> stat_row" where
  "total_row with_calls stats_df =
     \<lparr>Message_count = Some (nansum (map (\<lambda>x. Message_count (snd x)) stats_df)),
      Word_Count_sum = Some (nansum (map (\<lambda>x. Word_Count_sum (snd x)) stats_df)),
      Call_Duration_sum =
        (if with_calls then Some (nansum (map (\<lambda>x. Call_Duration_sum (snd x)) stats_df))
         else None)\<rparr>"

text \<open>
  \<open>rest_agg\<close>, and \<open>stats_df\<close> of the branch without the column: per sender, the count
  of the messages and the sum of the word counts.
\<close>

definition message_agg :: "message_row list \<Rightarrow> (pystr \<times> stat_row) list" where
  "message_agg df =
     map (\<lambda>s. (s, \<lparr>Message_count = Some (length (group s df)),
                    Word_Count_sum = Some (sum_list (map Word_Count (group s df))),
                    Call_Duration_sum = None\<rparr>))
       (group_keys df)"

text \<open>
  \<^verbatim>\<open>stats_df["Call Duration (Sec)"] = call_sum["Call Duration (Sec)"]\<close>. The sums are
  aligned with the index of \<open>stats_df\<close>: a sender of \<open>call_sum\<close> that is not in
  \<open>rest_agg\<close> gets no row. But when \<open>stats_df\<close> has no row at all, pandas gives it the
  index of the assigned column: every sender of \<open>call_sum\<close> gets a row, with NaN in the
  other columns.
\<close>

definition assign_call_sum ::
    "(pystr \<times> int) list \<Rightarrow> (pystr \<times> stat_row) list \<Rightarrow> (pystr \<times> stat_row) list" where
  "assign_call_sum call_sum stats_df =
     (if stats_df = []
      then map (\<lambda>x. (fst x, \<lparr>Message_count = None, Word_Count_sum = None,
                               Call_Duration_sum = Some (snd x)\<rparr>)) call_sum
      else map (\<lambda>x. (fst x, (snd x)\<lparr>Call_Duration_sum := map_of call_sum (fst x)\<rparr>)) stats_df)"

text \<open>
  \<open>message_stats\<close>. Indexing a column that the table does not have raises KeyError. The
  result is \<open>stats_df\<close> and, last, the row \<open>Total\<close>.
\<close>

definition message_stats :: "env \<Rightarrow> table \<Rightarrow> py_error + (pystr \<times> stat_row) list" where
  "message_stats E df_m_s =
     (if \<not> {''Message'', ''Sender'', ''Word Count''} \<subseteq> set (columns df_m_s) then Inl KeyError
      else
        (let no_urls = filter (\<lambda>r. \<not> str_contains http (Message r)) (rows df_m_s);
             df = map (\<lambda>r. r\<lparr>Message := join (prep_text E False (Message r))\<rparr>) no_urls
         in if ''Call Duration (Sec)'' \<in> set (columns df_m_s) then
              (let call_sum = map (\<lambda>s. (s, call_total (group s df))) (group_keys df);
                   rest_agg = message_agg (filter not_positive_call df);
                   stats_df = assign_call_sum call_sum rest_agg
               in Inr (stats_df @ [(ascii ''Total'', total_row True stats_df)]))
            else
              (let stats_df = message_agg df
               in Inr (stats_df @ [(ascii ''Total'', total_row False stats_df)]))))"

section \<open>chat\_features.py: top\_words\<close>

definition stop_words :: "string list" where
  "stop_words =
   [''i'', ''me'', ''my'', ''myself'', ''we'', ''our'', ''ours'', ''ourselves'', ''you'', ''your'', ''yours'',
    ''yourself'', ''yourselves'', ''he'', ''him'', ''his'', ''himself'', ''she'', ''her'', ''hers'', ''herself'',
    ''it'', ''its'', ''itself'', ''they'', ''them'', ''their'', ''theirs'', ''themselves'', ''what'', ''which'',
    ''who'', ''whom'', ''this'', ''that'', ''these'', ''those'', ''am'', ''is'', ''are'', ''was'', ''were'', ''be'',
    ''been'', ''being'', ''have'', ''has'', ''had'', ''having'', ''do'', ''does'', ''did'', ''doing'', ''a'', ''an'',
    ''the'', ''and'', ''but'', ''if'', ''or'', ''because'', ''as'', ''until'', ''while'', ''of'', ''at'', ''by'', ''for'',
    ''with'', ''about'', ''against'', ''between'', ''into'', ''through'', ''during'', ''before'', ''after'',
    ''above'', ''below'', ''to'', ''from'', ''up'', ''down'', ''in'', ''out'', ''on'', ''off'', ''over'', ''under'',
    ''again'', ''further'', ''then'', ''once'', ''here'', ''there'', ''when'', ''where'', ''why'', ''how'', ''all'',
    ''any'', ''both'', ''each'', ''few'', ''more'', ''most'', ''other'', ''some'', ''such'', ''no'', ''nor'', ''not'',
    ''only'', ''own'', ''same'', ''so'', ''than'', ''too'', ''very'', ''s'', ''t'', ''can'', ''will'', ''just'', ''don'',
    ''should'', ''now'', ''d'', ''ll'', ''m'', ''o'', ''re'', ''ve'', ''y'', ''ain'', ''aren'', ''couldn'', ''didn'',
    ''doesn'', ''hadn'', ''hasn'', ''haven'', ''isn'', ''ma'', ''mightn'', ''mustn'', ''needn'', ''shan'', ''shouldn'',
    ''wasn'', ''weren'', ''won'', ''wouldn'', ''ur'', ''u'', ''r'', ''c'', ''k'', ''b'', ''n'', ''ppl'', ''btw'', ''cuz'',
    ''bc'', ''dm'', ''kk'', ''wat'', ''ok'', ''yeah'', ''im'', ''like'']"

text \<open>\<open>word.title()\<close> on a word of ASCII letters: the first in upper case, the others in lower case.\<close>

definition title_word :: "pystr \<Rightarrow> pystr" where
  "title_word w = (case w of [] \<Rightarrow> [] | c # cs \<Rightarrow> upper c # map lower cs)"

text \<open>\<open>Counter.update(words)\<close>: a new word goes last, with count 1.\<close>

fun counter_add :: "(pystr \<times> nat) list \<Rightarrow> pystr \<Rightarrow> (pystr \<times> nat) list" where
  "counter_add [] w = [(w, 1)]"
| "counter_add ((v, n) # c) w = (if v = w then (v, Suc n) # c else (v, n) # counter_add c w)"

definition counter_update :: "(pystr \<times> nat) list \<Rightarrow> pystr list \<Rightarrow> (pystr \<times> nat) list" where
  "counter_update c ws = foldl counter_add c ws"

text \<open>\<open>Series.unique()\<close>: the values in the order of their first appearance.\<close>

definition unique :: "'a list \<Rightarrow> 'a list" where
  "unique xs = rev (remdups (rev xs))"

text \<open>
  \<open>top_words\<close>: the rows \<open>(Word, Sender, Count)\<close>, sorted by the count, the largest first.
  \<^verbatim>\<open>df_t_w['Call Duration (Sec)']\<close> is indexed whatever the columns. pandas fixes no order
  among rows with equal counts; the model keeps each sender's words in the order of their
  counter.
\<close>

definition top_words :: "env \<Rightarrow> table \<Rightarrow> py_error + (pystr \<times> pystr \<times> nat) list" where
  "top_words E df_t_w =
     (let stop = map (\<lambda>w. title_word (ascii w)) stop_words
      in if ''Message'' \<notin> set (columns df_t_w) then Inl KeyError
         else
           (let no_urls = filter (\<lambda>r. \<not> str_contains http (Message r)) (rows df_t_w)
            in if ''Call Duration (Sec)'' \<notin> set (columns df_t_w) then Inl KeyError
               else
                 (let df = filter not_positive_call no_urls;
                      words = map (\<lambda>r. (Sender r,
                                prep_text E True (words_without_punctuation (Message r)))) df
                  in if ''Sender'' \<notin> set (columns df_t_w) then Inl KeyError
                     else
                       (let senders = unique (map fst words);
                            most_words =
                              map (\<lambda>s. (s, counter_update []
                                     (concat (map snd (filter (\<lambda>x. fst x = s) words))))) senders;
                            popped =
                              map (\<lambda>x. (fst x, filter (\<lambda>wn. fst wn \<notin> set stop) (snd x))) most_words;
                            melted =
                              concat (map (\<lambda>x. map (\<lambda>wn. (fst wn, fst x, snd wn)) (snd x)) popped)
                        in Inr (sort_key (\<lambda>x. - int (snd (snd x))) melted)))))"

section \<open>Instances of the parameters\<close>

text \<open>
  The offset of America/Toronto between 12 March 2023, 07:00 UTC, and 10 March 2024,
  07:00 UTC: daylight time (four hours behind UTC) until 5 November 2023, 06:00 UTC, which
  is 1699164000000 ms after the epoch, and standard time (five hours behind) from then
  on.
\<close>

definition toronto_2023 :: "int \<Rightarrow> int" where
  "toronto_2023 ts = (if ts < 1699164000000 then - 14400000 else - 18000000)"

text \<open>
  A small emoji table: thumbs up (U+1F44D), thumbs up with a skin tone (U+1F44D U+1F3FD),
  the skin tone alone (U+1F3FD) and the grinning face (U+1F600). The count of emoji is
  the number of matches of the emoji pattern, no code point from 128 on is a letter, a
  digit or a space, and the bounds of the time stamps are those of a count of nanoseconds
  in 64 bits.
\<close>

definition small_emoji_data :: "pystr list" where
  "small_emoji_data = [[128077], [128077, 127997], [127997], [128512]]"

definition small_env :: env where
  "small_env =
     \<lparr>EMOJI_DATA = small_emoji_data,
      emoji_count = (\<lambda>s. length (findall (sorted_len_reverse small_emoji_data) s)),
      unicode_alnum = (\<lambda>c. False),
      unicode_decimal = (\<lambda>c. False),
      unicode_space = (\<lambda>c. False),
      toronto_offset = toronto_2023,
      in_bounds = (\<lambda>ts. - 9223372036854 \<le> ts \<and> ts \<le> 9223372036854)\<rparr>"

section \<open>Example inputs\<close>

text \<open>
  An export with a text message, a message whose text is not the Latin-1 reading of UTF-8
  bytes (the byte E9 of its last character opens a sequence of three bytes that the text
  ends before) and a call.
\<close>

definition bad_message :: raw_message where
  "bad_message =
     \<lparr>sender_name = ascii ''Bob'', timestamp_ms = 1700000001000,
      content = Some [99, 97, 102, 233], call_duration = None, other = []\<rparr>"

definition bad_file :: chat_file where
  "bad_file =
     \<lparr>title = ascii ''Chat'',
      messages =
        [\<lparr>sender_name = ascii ''Alice'', timestamp_ms = 1700000000000,
          content = Some (ascii ''hello''), call_duration = None, other = []\<rparr>,
         bad_message,
         \<lparr>sender_name = ascii ''Bob'', timestamp_ms = 1700000002000,
          content = Some (ascii ''You called Alice.''), call_duration = Some 60, other = []\<rparr>]\<rparr>"

text \<open>An export with a call and, before it, a message that holds a link; its cleaned rows.\<close>

definition url_file :: chat_file where
  "url_file =
     \<lparr>title = ascii ''Chat'',
      messages =
        [\<lparr>sender_name = ascii ''Bob'', timestamp_ms = 1700000002000,
          content = Some (ascii ''You called Alice.''), call_duration = Some 60, other = []\<rparr>,
         \<lparr>sender_name = ascii ''Alice'', timestamp_ms = 1700000000000,
          content = Some (ascii ''check http://x.com now''), call_duration = None, other = []\<rparr>]\<rparr>"

definition url_row :: message_row where
  "url_row =
     \<lparr>Sender = ascii ''Alice'', Title = None, Timestamp = 1700000000000, Date = 19675,
      Time = 62000000, Message = ascii ''check http://x.com now'', Call_Duration = None,
      Word_Count = 0, Emoji_Count = 0\<rparr>"

definition call_row :: message_row where
  "call_row =
     \<lparr>Sender = ascii ''Bob'', Title = None, Timestamp = 1700000002000, Date = 19675,
      Time = 62002000, Message = ascii ''You called Alice.'', Call_Duration = Some 60,
      Word_Count = 0, Emoji_Count = 0\<rparr>"

definition url_table :: table where
  "url_table =
     \<lparr>columns = [''Sender'', ''timestamp_ms'', ''Date'', ''Time'', ''Message'',
                 ''Call Duration (Sec)'', ''Word Count'', ''Emoji Count''],
      rows = [url_row, call_row]\<rparr>"

text \<open>
  An export of the night of 5 November 2023, when the clocks of Toronto went back from
  2:00 to 1:00: a message sent at 05:30 UTC (1:30 daylight time) and one sent at 06:10 UTC
  (1:10 standard time).
\<close>

definition dst_file :: chat_file where
  "dst_file =
     \<lparr>title = ascii ''Chat'',
      messages =
        [\<lparr>sender_name = ascii ''Alice'', timestamp_ms = 1699162200000,
          content = Some (ascii ''still up''), call_duration = None, other = []\<rparr>,
         \<lparr>sender_name = ascii ''Bob'', timestamp_ms = 1699164600000,
          content = Some (ascii ''me too''), call_duration = None, other = []\<rparr>]\<rparr>"

definition dst_table :: table where
  "dst_table =
     \<lparr>columns = [''Sender'', ''timestamp_ms'', ''Date'', ''Time'', ''Message'',
                 ''Word Count'', ''Emoji Count''],
      rows =
        [\<lparr>Sender = ascii ''Alice'', Title = None, Timestamp = 1699162200000, Date = 19666,
          Time = 5400000, Message = ascii ''still up'', Call_Duration = None,
          Word_Count = 2, Emoji_Count = 0\<rparr>,
         \<lparr>Sender = ascii ''Bob'', Title = None, Timestamp = 1699164600000, Date = 19666,
          Time = 4200000, Message = ascii ''me too'', Call_Duration = None,
          Word_Count = 2, Emoji_Count = 0\<rparr>]\<rparr>"

text \<open>The same export in a folder of its own under the parent directory of all\_folders.py.\<close>

definition url_table_af :: table where
  "url_table_af =
     \<lparr>columns = [''Sender'', ''Title'', ''timestamp_ms'', ''Date'', ''Time'', ''Message'',
                 ''Call Duration (Sec)'', ''Word Count'', ''Emoji Count''],
      rows = [url_row\<lparr>Title := Some (ascii ''Chat'')\<rparr>, call_row\<lparr>Title := Some (ascii ''Chat'')\<rparr>]\<rparr>"


text \<open>
  The scenario of two records of Alice, the second a call without text, for a text
  \<open>c\<close> and an instant \<open>T\<close>. \<open>hello_text\<close> is \<open>Hello\<close>, the grinning face U+1F600 and
  \<open>world\<close>; \<open>hello_export\<close> is the same text as an export holds it, the four bytes of
  the emoji in UTF-8 read as four Latin-1 characters.
\<close>

definition hello_text :: pystr where
  "hello_text = [72, 101, 108, 108, 111, 32, 128512, 32, 119, 111, 114, 108, 100]"

definition hello_export :: pystr where
  "hello_export = [72, 101, 108, 108, 111, 32, 240, 159, 152, 128, 32, 119, 111, 114, 108, 100]"

definition alice_file :: "pystr \<Rightarrow> int \<Rightarrow> chat_file" where
  "alice_file c T =
     \<lparr>title = ascii ''Chat'',
      messages =
        [\<lparr>sender_name = ascii ''Alice'', timestamp_ms = T,
          content = Some c, call_duration = None, other = []\<rparr>,
         \<lparr>sender_name = ascii ''Alice'', timestamp_ms = T + 1000,
          content = None, call_duration = Some 5, other = []\<rparr>]\<rparr>"

text \<open>
  An export in which Bob only placed a call and wrote no message, and its cleaned table.
\<close>

definition calls_file :: chat_file where
  "calls_file =
     \<lparr>title = ascii ''Chat'',
      messages =
        [\<lparr>sender_name = ascii ''Alice'', timestamp_ms = 1700000000000,
          content = Some (ascii ''hi there''), call_duration = None, other = []\<rparr>,
         \<lparr>sender_name = ascii ''Bob'', timestamp_ms = 1700000002000,
          content = Some (ascii ''You called Alice.''), call_duration = Some 60, other = []\<rparr>]\<rparr>"

definition calls_table :: table where
  "calls_table =
     \<lparr>columns = [''Sender'', ''timestamp_ms'', ''Date'', ''Time'', ''Message'',
                 ''Call Duration (Sec)'', ''Word Count'', ''Emoji Count''],
      rows =
        [\<lparr>Sender = ascii ''Alice'', Title = None, Timestamp = 1700000000000, Date = 19675,
          Time = 62000000, Message = ascii ''hi there'', Call_Duration = None,
          Word_Count = 2, Emoji_Count = 0\<rparr>,
         call_row]\<rparr>"

section \<open>Notions for the proofs\<close>

text \<open>The time columns of a row, which no step after the projection changes.\<close>

definition stamp :: "'a frame_row_scheme \<Rightarrow> int \<times> int \<times> int" where
  "stamp r = (Timestamp r, Date r, Time r)"

section \<open>Lemmas on the steps of the pipeline\<close>

lemma for_each_Inr:
  "for_each f xs = Inr ys \<Longrightarrow> list_all2 (\<lambda>x y. f x = Inr y) xs ys"
  by (induction xs arbitrary: ys) (auto split: sum.splits)

lemma for_each_Inl:
  "x \<in> set xs \<Longrightarrow> f x = Inl e \<Longrightarrow> \<exists>y e'. y \<in> set xs \<and> f y = Inl e' \<and> for_each f xs = Inl e'"
proof (induction xs)
  case Nil
  then show ?case by simp
next
  case (Cons a xs)
  show ?case
  proof (cases "f a")
    case (Inl e0)
    then show ?thesis by auto
  next
    case (Inr b)
    with Cons.prems have "x \<in> set xs" by auto
    from Cons.IH [OF this Cons.prems(2)] obtain y e'
      where "y \<in> set xs" "f y = Inl e'" "for_each f xs = Inl e'" by blast
    with Inr show ?thesis by auto
  qed
qed

lemma utf8_decode_error: "utf8_decode bs = Inl e \<Longrightarrow> e = UnicodeDecodeError"
  by (induction bs arbitrary: e rule: utf8_decode.induct) (auto split: option.splits sum.splits)

lemma converter_error:
  "unicode_emoji_converter s = Inl e \<Longrightarrow> e = UnicodeEncodeError \<or> e = UnicodeDecodeError"
  by (auto simp: unicode_emoji_converter_def latin1_encode_def split: if_splits sum.splits
      dest: utf8_decode_error)

lemma repair_error:
  "repair r = Inl e \<Longrightarrow> unicode_emoji_converter (Message r) = Inl e"
  by (auto simp: repair_def split: sum.splits)

lemma repair_fails:
  "unicode_emoji_converter (Message r) = Inl e \<Longrightarrow> repair r = Inl e"
  by (auto simp: repair_def split: sum.splits)

lemma project_Some:
  "content (snd x) = Some s \<Longrightarrow> \<exists>r. project E x = Some r \<and> Message r = s"
  by (simp add: project_def)

lemma map_filter_mem:
  "y \<in> set (List.map_filter f xs) \<longleftrightarrow> (\<exists>x \<in> set xs. f x = Some y)"
  by (induction xs) (auto simp: List.map_filter_simps split: option.splits)

lemma dropna_Message_mem:
  assumes "x \<in> set df" and "content (snd x) = Some s"
  shows "\<exists>r \<in> set (dropna_Message E df). Message r = s"
proof -
  obtain r where r: "project E x = Some r" "Message r = s"
    using project_Some [OF assms(2)] by blast
  with assms(1) have "r \<in> set (dropna_Message E df)"
    by (auto simp: dropna_Message_def map_filter_mem)
  with r(2) show ?thesis by blast
qed

lemma has_content_mem:
  "x \<in> set df \<Longrightarrow> content (snd x) = Some s \<Longrightarrow> has_content df"
  by (auto simp: has_content_def list_ex_iff)

lemma purge_subset: "x \<in> set (purge cols df) \<Longrightarrow> x \<in> set df"
  by (simp add: purge_def)

lemma repair_stage_raises:
  assumes "r \<in> set rs" and "unicode_emoji_converter (Message r) = Inl e"
  shows "for_each repair (sort_key k rs) = Inl UnicodeEncodeError
       \<or> for_each repair (sort_key k rs) = Inl UnicodeDecodeError"
proof -
  from assms have "r \<in> set (sort_key k rs)" "repair r = Inl e"
    by (simp_all add: repair_fails)
  from for_each_Inl [of r "sort_key k rs" repair e, OF this] obtain y e'
    where "repair y = Inl e'" "for_each repair (sort_key k rs) = Inl e'" by blast
  then show ?thesis using converter_error [OF repair_error] by metis
qed

lemma add_word_count_simps:
  "Sender (add_word_count E r) = Sender r"
  "Title (add_word_count E r) = Title r"
  "Timestamp (add_word_count E r) = Timestamp r"
  "Date (add_word_count E r) = Date r"
  "Time (add_word_count E r) = Time r"
  "Message (add_word_count E r) = Message r"
  "Call_Duration (add_word_count E r) = Call_Duration r"
  "Word_Count (add_word_count E r) = word_count E (Message r)"
  by (simp_all add: add_word_count_def frame_row.defs counted_row.defs)

lemma add_emoji_count_simps:
  "Sender (add_emoji_count E r) = Sender r"
  "Title (add_emoji_count E r) = Title r"
  "Timestamp (add_emoji_count E r) = Timestamp r"
  "Date (add_emoji_count E r) = Date r"
  "Time (add_emoji_count E r) = Time r"
  "Message (add_emoji_count E r) = Message r"
  "Call_Duration (add_emoji_count E r) = Call_Duration r"
  "Word_Count (add_emoji_count E r) = Word_Count r"
  "Emoji_Count (add_emoji_count E r) = emoji_count E (Message r)"
  by (simp_all add: add_emoji_count_def frame_row.defs counted_row.defs message_row.defs)

lemma repair_fields:
  "repair r = Inr r' \<Longrightarrow>
     Sender r' = Sender r \<and> Title r' = Title r \<and> Timestamp r' = Timestamp r \<and> Date r' = Date r
     \<and> Time r' = Time r \<and> Call_Duration r' = Call_Duration r
     \<and> unicode_emoji_converter (Message r) = Inr (Message r')"
  by (auto simp: repair_def split: sum.splits)

lemma list_all2_setD2:
  "list_all2 R xs ys \<Longrightarrow> y \<in> set ys \<Longrightarrow> \<exists>x \<in> set xs. R x y"
  by (induction rule: list_all2_induct) auto

lemma zero_call_words_zeroed:
  "r \<in> set (zero_call_words df) \<Longrightarrow> Call_Duration r = Some d \<Longrightarrow> 0 \<le> d \<Longrightarrow> Word_Count r = 0"
  by (auto simp: zero_call_words_def split: option.splits if_splits)

lemma zero_url_words_keeps:
  assumes "\<And>r. r \<in> set df \<Longrightarrow> Call_Duration r = Some d \<Longrightarrow> Word_Count r = 0"
    and "r \<in> set (zero_url_words df)" and "Call_Duration r = Some d"
  shows "Word_Count r = 0"
  using assms by (auto simp: zero_url_words_def split: if_splits)

lemma zero_url_words_zeroed:
  "r \<in> set (zero_url_words df) \<Longrightarrow> str_contains http (Message r) \<Longrightarrow> Word_Count r = 0"
  by (auto simp: zero_url_words_def split: if_splits)

lemma zero_url_words_calls:
  "\<forall>r \<in> set df. Call_Duration r = None \<Longrightarrow> r \<in> set (zero_url_words df) \<Longrightarrow> Call_Duration r = None"
  by (auto simp: zero_url_words_def split: if_splits)

lemma project_call:
  "project E x = Some r \<Longrightarrow> Call_Duration r = call_duration (snd x)"
  by (auto simp: project_def split: option.splits)

lemma no_call_column:
  assumes "\<not> has_call_duration raw" and "r \<in> set (dropna_Message E (purge cols raw))"
  shows "Call_Duration r = None"
proof -
  from assms(2) obtain x where x: "x \<in> set raw" "project E x = Some r"
    by (auto simp: dropna_Message_def map_filter_mem purge_def)
  from assms(1) x(1) have "call_duration (snd x) = None"
    by (auto simp: has_call_duration_def list_ex_iff)
  with project_call [OF x(2)] show ?thesis by simp
qed

lemma for_each_repair_calls:
  assumes "for_each repair xs = Inr ys" and "\<forall>r \<in> set xs. Call_Duration r = None"
    and "r \<in> set ys"
  shows "Call_Duration r = None"
proof -
  from for_each_Inr [OF assms(1)] have "list_all2 (\<lambda>x y. repair x = Inr y) xs ys" .
  from list_all2_setD2 [OF this assms(3)] obtain x where "x \<in> set xs" "repair x = Inr r"
    by blast
  with assms(2) repair_fields [of x r] show ?thesis by simp
qed

text \<open>The rows of a table that \<open>clean_messages\<close> returns, in both modules.\<close>

lemma sf_clean_messages_rows:
  assumes "sf_clean_messages E directory = Inr t"
  obtains raw repaired where
    "sf_all_messages E directory = Inr raw" "has_content raw"
    "for_each repair (sort_key Timestamp (dropna_Message E (purge sf_retain_columns raw))) = Inr repaired"
    "rows t = map (add_emoji_count E) (zero_url_words
        (if has_call_duration raw
         then zero_call_words (drop_zero_calls (map (add_word_count E) repaired))
         else map (add_word_count E) repaired))"
    "columns t = (if has_call_duration raw
         then [''Sender'', ''timestamp_ms'', ''Date'', ''Time'', ''Message'', ''Call Duration (Sec)'',
               ''Word Count'', ''Emoji Count'']
         else [''Sender'', ''timestamp_ms'', ''Date'', ''Time'', ''Message'',
               ''Word Count'', ''Emoji Count''])"
  using assms
  by (auto simp: sf_clean_messages_def Let_def split: sum.splits if_splits)

lemma af_clean_messages_rows:
  assumes "af_clean_messages E root = Inr t"
  obtains raw repaired where
    "all_folder E root = Inr raw" "has_content raw" "has_call_duration raw"
    "for_each repair (sort_key (\<lambda>r. (Date r, Time r))
        (dropna_Message E (purge af_retain_columns raw))) = Inr repaired"
    "rows t = map (add_emoji_count E) (zero_url_words
        (zero_call_words (drop_zero_calls (map (add_word_count E) repaired))))"
    "columns t = [''Sender'', ''Title'', ''timestamp_ms'', ''Date'', ''Time'', ''Message'',
        ''Call Duration (Sec)'', ''Word Count'', ''Emoji Count'']"
  using assms
  by (auto simp: af_clean_messages_def Let_def split: sum.splits if_splits)

lemma subseq_sorted: "subseq xs ys \<Longrightarrow> sorted ys \<Longrightarrow> sorted xs"
proof (induction rule: list_emb.induct)
  case (list_emb_Nil ys)
  then show ?case by simp
next
  case (list_emb_Cons xs ys y)
  then show ?case by simp
next
  case (list_emb_Cons2 x y xs ys)
  then have "set xs \<subseteq> set ys" using list_emb_set [of "(=)" xs ys] by auto
  with list_emb_Cons2 show ?case by auto
qed

lemma stamp_simps:
  "stamp (add_word_count E r) = stamp r"
  "stamp (add_emoji_count E q) = stamp q"
  by (simp_all add: stamp_def add_word_count_simps add_emoji_count_simps)

lemma stamp_zero_url_words: "map stamp (zero_url_words df) = map stamp df"
  by (simp add: zero_url_words_def stamp_def)

lemma stamp_zero_call_words: "map stamp (zero_call_words df) = map stamp df"
  by (auto simp: zero_call_words_def stamp_def split: option.splits)

lemma stamp_drop_zero_calls: "subseq (map stamp (drop_zero_calls df)) (map stamp df)"
  by (simp add: drop_zero_calls_def subseq_map)

lemma stamp_repair: "for_each repair xs = Inr ys \<Longrightarrow> map stamp ys = map stamp xs"
proof -
  assume "for_each repair xs = Inr ys"
  then have "list_all2 (\<lambda>x y. repair x = Inr y) xs ys" by (rule for_each_Inr)
  then show ?thesis
    by (induction rule: list_all2_induct) (auto simp: stamp_def dest: repair_fields)
qed

lemma stamp_project: "project E x = Some r \<Longrightarrow>
    stamp r = (timestamp_ms (snd x), dt_date E (timestamp_ms (snd x)), dt_time E (timestamp_ms (snd x)))"
  by (auto simp: project_def stamp_def split: option.splits)

lemma stamp_dropna:
  "s \<in> set (map stamp (dropna_Message E df)) \<Longrightarrow> snd s = (dt_date E (fst s), dt_time E (fst s))"
proof -
  assume "s \<in> set (map stamp (dropna_Message E df))"
  then obtain x r where "project E x = Some r" "s = stamp r"
    by (auto simp: dropna_Message_def map_filter_mem)
  then show ?thesis using stamp_project [of E x r] by simp
qed

lemma sf_stamps:
  assumes "sf_clean_messages E directory = Inr t"
  obtains raw where
    "subseq (map stamp (rows t))
       (map stamp (sort_key Timestamp (dropna_Message E (purge sf_retain_columns raw))))"
proof -
  from assms obtain raw repaired where
    rp: "for_each repair (sort_key Timestamp (dropna_Message E (purge sf_retain_columns raw)))
             = Inr repaired"
    and rw: "rows t = map (add_emoji_count E) (zero_url_words
        (if has_call_duration raw
         then zero_call_words (drop_zero_calls (map (add_word_count E) repaired))
         else map (add_word_count E) repaired))"
    by (rule sf_clean_messages_rows)
  have m: "map stamp (map (add_word_count E) repaired) = map stamp repaired"
    by (simp add: stamp_simps)
  have "subseq (map stamp (rows t)) (map stamp repaired)"
  proof (cases "has_call_duration raw")
    case True
    have "map stamp (rows t) = map stamp (drop_zero_calls (map (add_word_count E) repaired))"
      using True rw stamp_zero_url_words stamp_zero_call_words
      by (simp add: stamp_simps comp_def) 
    with stamp_drop_zero_calls [of "map (add_word_count E) repaired"] show ?thesis
      by (simp only: m)
  next
    case False
    have "map stamp (rows t) = map stamp (map (add_word_count E) repaired)"
      using False rw stamp_zero_url_words by (simp add: stamp_simps comp_def)
    then show ?thesis by (simp only: m subseq_order.order_refl)
  qed
  with stamp_repair [OF rp] that show ?thesis by simp
qed

lemma af_stamps:
  assumes "af_clean_messages E root = Inr t"
  obtains raw where
    "subseq (map stamp (rows t))
       (map stamp (sort_key (\<lambda>r. (Date r, Time r))
          (dropna_Message E (purge af_retain_columns raw))))"
proof -
  from assms obtain raw repaired where
    rp: "for_each repair (sort_key (\<lambda>r. (Date r, Time r))
        (dropna_Message E (purge af_retain_columns raw))) = Inr repaired"
    and rw: "rows t = map (add_emoji_count E) (zero_url_words
        (zero_call_words (drop_zero_calls (map (add_word_count E) repaired))))"
    by (rule af_clean_messages_rows)
  have m: "map stamp (map (add_word_count E) repaired) = map stamp repaired"
    by (simp add: stamp_simps)
  have "map stamp (rows t) = map stamp (drop_zero_calls (map (add_word_count E) repaired))"
    using rw stamp_zero_url_words stamp_zero_call_words
    by (simp add: stamp_simps comp_def)
  with stamp_drop_zero_calls [of "map (add_word_count E) repaired"]
  have "subseq (map stamp (rows t)) (map stamp repaired)" by (simp only: m)
  with stamp_repair [OF rp] that show ?thesis by simp
qed

lemma div_mod_mono:
  fixes a b :: int
  assumes "a \<le> b"
  shows "(a div 86400000, a mod 86400000) \<le> (b div 86400000, b mod 86400000)"
proof -
  have d: "a div 86400000 \<le> b div 86400000" using assms by (rule zdiv_mono1) simp
  have "a mod 86400000 \<le> b mod 86400000" if "a div 86400000 = b div 86400000"
  proof -
    have "a mod 86400000 = a - 86400000 * (a div 86400000)"
      by (simp add: minus_mult_div_eq_mod)
    moreover have "b mod 86400000 = b - 86400000 * (b div 86400000)"
      by (simp add: minus_mult_div_eq_mod)
    ultimately show ?thesis using assms that by simp
  qed
  with d show ?thesis by (cases "a div 86400000 = b div 86400000") (auto simp: less_eq_prod_def)
qed

lemma sorted_map_mono:
  "sorted xs \<Longrightarrow> (\<And>a b. a \<in> set xs \<Longrightarrow> b \<in> set xs \<Longrightarrow> a \<le> b \<Longrightarrow> g a \<le> g b)
     \<Longrightarrow> sorted (map g xs)"
  by (induction xs) auto

lemma subseq_setD: "subseq xs ys \<Longrightarrow> x \<in> set xs \<Longrightarrow> x \<in> set ys"
  using list_emb_set [of "(=)" xs ys x] by auto

lemma first_match_None: "first_match as t = None \<longleftrightarrow> (\<forall>a \<in> set as. \<not> prefix a t)"
  by (induction as) auto

lemma first_match_Some: "first_match as t = Some m \<Longrightarrow> m \<in> set as \<and> prefix m t"
  by (induction as) (auto split: if_splits)

lemma first_match_longest:
  assumes "sorted (rev (map length as))" and "first_match as t = Some m"
    and "a \<in> set as" and "prefix a t"
  shows "length a \<le> length m"
  using assms
proof (induction as)
  case Nil
  then show ?case by simp
next
  case (Cons b bs)
  from Cons.prems(1) have s: "sorted (rev (map length bs))" and le: "\<forall>x \<in> set bs. length x \<le> length b"
    by (auto simp: sorted_append)
  show ?case
  proof (cases "prefix b t")
    case True
    with Cons.prems(2) have "m = b" by simp
    with Cons.prems(3) le show ?thesis by auto
  next
    case False
    with Cons.prems have "first_match bs t = Some m" "a \<in> set bs" by auto
    with Cons.IH s Cons.prems(4) show ?thesis by blast
  qed
qed

lemma prefix_same_length: "prefix a t \<Longrightarrow> prefix b t \<Longrightarrow> length a = length b \<Longrightarrow> a = b"
  by (auto simp: prefix_def)

lemma sorted_len_reverse_props:
  "set (sorted_len_reverse xs) = set xs"
  "sorted (rev (map length (sorted_len_reverse xs)))"
  by (simp_all add: sorted_len_reverse_def rev_map [symmetric])

lemma regexp_longest:
  assumes "e \<in> set (EMOJI_DATA E)" and "prefix e t"
    and "\<forall>e' \<in> set (EMOJI_DATA E). prefix e' t \<longrightarrow> length e' \<le> length e"
  shows "first_match (get_emoji_regexp E) t = Some e"
proof -
  let ?as = "get_emoji_regexp E"
  have mem: "set ?as = set (EMOJI_DATA E)" and srt: "sorted (rev (map length ?as))"
    by (simp_all add: get_emoji_regexp_def sorted_len_reverse_props)
  from assms(1,2) mem have "first_match ?as t \<noteq> None"
    by (auto simp: first_match_None)
  then obtain m where m: "first_match ?as t = Some m" by blast
  from first_match_Some [OF m] mem have pm: "m \<in> set (EMOJI_DATA E)" "prefix m t" by auto
  from first_match_longest [OF srt m _ assms(2)] assms(1) mem have "length e \<le> length m" by blast
  moreover from assms(3) pm have "length m \<le> length e" by blast
  ultimately have "m = e" using prefix_same_length [OF pm(2) assms(2)] by simp
  with m show ?thesis by simp
qed

lemma zero_url_words_nonzero:
  "\<forall>q \<in> set df. Call_Duration q \<noteq> Some 0 \<Longrightarrow> r \<in> set (zero_url_words df)
     \<Longrightarrow> Call_Duration r \<noteq> Some 0"
  by (auto simp: zero_url_words_def split: if_splits)

lemma drop_zero_calls_nonzero:
  "r \<in> set (zero_call_words (drop_zero_calls df)) \<Longrightarrow> Call_Duration r \<noteq> Some 0"
  by (auto simp: zero_call_words_def drop_zero_calls_def split: option.splits if_splits)

text \<open>The definitions that the evaluation of an example unfolds.\<close>

lemmas pipeline_defs =
  sf_clean_messages_def af_clean_messages_def
  sf_all_messages_def sf_chat_db_def all_folder_def af_all_messages_def af_chat_db_def
  pd_concat_def sf_retain_columns_def af_retain_columns_def
  purge_def has_content_def has_call_duration_def dropna_Message_def List.map_filter_def
  project_def repair_def dt_date_def dt_time_def local_ms_def
  add_word_count_def add_emoji_count_def drop_zero_calls_def zero_call_words_def
  zero_url_words_def frame_row.defs counted_row.defs message_row.defs Let_def

lemmas text_defs =
  ascii_def http_def unicode_emoji_converter_def latin1_encode_def utf8_next_def continuation_def
  word_count_def prep_text_def str_split_def re_w_def re_d_def re_s_def ascii_letter_def

lemmas small_env_defs =
  small_env_def small_emoji_data_def toronto_2023_def sorted_len_reverse_def

lemma url_file_sf: "sf_clean_messages small_env [url_file] = Inr url_table"
  by (simp add: url_file_def url_table_def url_row_def call_row_def
      pipeline_defs text_defs small_env_defs)

lemma url_file_af: "af_clean_messages small_env [Folder [url_file]] = Inr url_table_af"
  by (simp add: url_file_def url_table_af_def url_row_def call_row_def
      pipeline_defs text_defs small_env_defs)

lemma dst_file_sf: "sf_clean_messages small_env [dst_file] = Inr dst_table"
  by (simp add: dst_file_def dst_table_def pipeline_defs text_defs small_env_defs)

lemma group_keys_set: "set (group_keys df) = Sender ` set df"
  by (simp add: group_keys_def)

lemma group_keys_distinct: "distinct (group_keys df)"
  by (simp add: group_keys_def)

lemma message_agg_keys: "map fst (message_agg df) = group_keys df"
  by (simp add: message_agg_def comp_def)

lemma map_of_keys: "k \<in> set ks \<Longrightarrow> map_of (map (\<lambda>s. (s, f s)) ks) k = Some (f k)"
  by (induction ks) auto

lemma sum_list_filter_disj:
  fixes f :: "'a \<Rightarrow> 'b::comm_monoid_add"
  assumes "\<And>x. \<not> (P x \<and> Q x)"
  shows "sum_list (map f (filter (\<lambda>x. P x \<or> Q x) xs))
       = sum_list (map f (filter P xs)) + sum_list (map f (filter Q xs))"
  using assms by (induction xs) (auto simp: ac_simps)

lemma sum_groups:
  fixes f :: "'a \<Rightarrow> 'b::comm_monoid_add"
  assumes "distinct ks"
  shows "sum_list (map (\<lambda>k. sum_list (map f (filter (\<lambda>r. key r = k) xs))) ks)
       = sum_list (map f (filter (\<lambda>r. key r \<in> set ks) xs))"
  using assms
proof (induction ks)
  case Nil
  then show ?case by simp
next
  case (Cons k ks)
  then have d: "\<And>r. \<not> (key r = k \<and> key r \<in> set ks)" by auto
  have "filter (\<lambda>r. key r \<in> set (k # ks)) xs = filter (\<lambda>r. key r = k \<or> key r \<in> set ks) xs"
    by (rule filter_cong) auto
  with sum_list_filter_disj [of "\<lambda>r. key r = k" "\<lambda>r. key r \<in> set ks" f xs, OF d] Cons
  show ?case by simp
qed

lemma not_positive_call_Message: "not_positive_call (r\<lparr>Message := m\<rparr>) = not_positive_call r"
  by (simp add: not_positive_call_def)

text \<open>The table of the statistics when the table has the column of the call durations.\<close>

lemma message_stats_calls:
  fixes E :: env and t :: table
  assumes "{''Message'', ''Sender'', ''Word Count'', ''Call Duration (Sec)''} \<subseteq> set (columns t)"
  defines "no_urls \<equiv> filter (\<lambda>r. \<not> str_contains http (Message r)) (rows t)"
  defines "df \<equiv> map (\<lambda>r. r\<lparr>Message := join (prep_text E False (Message r))\<rparr>) no_urls"
  defines "stats \<equiv> assign_call_sum (map (\<lambda>s. (s, call_total (group s df))) (group_keys df))
      (message_agg (filter not_positive_call df))"
  shows "message_stats E t = Inr (stats @ [(ascii ''Total'', total_row True stats)])"
    and "fst ` set stats =
      Sender ` set (if filter not_positive_call no_urls = [] then no_urls
                    else filter not_positive_call no_urls)"
    and "Call_Duration_sum (total_row True stats) =
      Some (call_total (filter (\<lambda>r. Sender r \<in> fst ` set stats) no_urls))"
    and "Message_count (total_row True stats) = Some (length (filter not_positive_call no_urls))"
proof -
  let ?rest = "filter not_positive_call df"
  let ?call_sum = "map (\<lambda>s. (s, call_total (group s df))) (group_keys df)"
  show "message_stats E t = Inr (stats @ [(ascii ''Total'', total_row True stats)])"
    using assms(1) by (simp add: message_stats_def Let_def stats_def df_def no_urls_def)
  have fm: "?rest = map (\<lambda>r. r\<lparr>Message := join (prep_text E False (Message r))\<rparr>)
          (filter not_positive_call no_urls)"
    by (simp add: df_def filter_map comp_def not_positive_call_Message)
  have senders_df: "Sender ` set df = Sender ` set no_urls"
    by (simp add: df_def image_image)
  have senders_rest: "Sender ` set ?rest = Sender ` set (filter not_positive_call no_urls)"
    by (simp add: fm image_image)
  have calls_df: "call_total (filter P df) = call_total (filter P no_urls)"
    if "\<And>r m. P (r\<lparr>Message := m\<rparr>) = P r" for P :: "message_row \<Rightarrow> bool"
    using that by (simp add: df_def call_total_def filter_map comp_def)
  have agg_empty: "message_agg ?rest = [] \<longleftrightarrow> filter not_positive_call no_urls = []"
  proof -
    have "message_agg ?rest = [] \<longleftrightarrow> set (group_keys ?rest) = {}"
      by (simp add: message_agg_def)
    also have "\<dots> \<longleftrightarrow> ?rest = []" by (simp only: group_keys_set image_is_empty set_empty)
    also have "\<dots> \<longleftrightarrow> filter not_positive_call no_urls = []" by (simp add: fm)
    finally show ?thesis .
  qed
  have total_calls: "sum_list (map (\<lambda>k. call_total (group k df)) ks)
      = call_total (filter (\<lambda>r. Sender r \<in> set ks) no_urls)" if "distinct ks" for ks
  proof -
    have "sum_list (map (\<lambda>k. call_total (group k df)) ks)
        = call_total (filter (\<lambda>r. Sender r \<in> set ks) df)"
      unfolding call_total_def group_def by (rule sum_groups) (rule that)
    also have "\<dots> = call_total (filter (\<lambda>r. Sender r \<in> set ks) no_urls)"
      by (rule calls_df) simp
    finally show ?thesis .
  qed
  show "fst ` set stats =
      Sender ` set (if filter not_positive_call no_urls = [] then no_urls
                    else filter not_positive_call no_urls)"
    and "Call_Duration_sum (total_row True stats) =
      Some (call_total (filter (\<lambda>r. Sender r \<in> fst ` set stats) no_urls))"
    and "Message_count (total_row True stats) = Some (length (filter not_positive_call no_urls))"
  proof (atomize (full), cases "filter not_positive_call no_urls = []")
    case True
    with agg_empty have st: "stats = map (\<lambda>x. (fst x, \<lparr>Message_count = None, Word_Count_sum = None,
                               Call_Duration_sum = Some (snd x)\<rparr>)) ?call_sum"
      by (simp add: stats_def assign_call_sum_def)
    have keys: "map fst stats = group_keys df" by (simp add: st comp_def)
    then have fs: "fst ` set stats = set (group_keys df)" by (metis set_map)
    have c: "nansum (map (\<lambda>x. Call_Duration_sum (snd x)) stats)
        = sum_list (map (\<lambda>k. call_total (group k df)) (group_keys df))"
      by (simp add: st nansum_def comp_def)
    have m: "nansum (map (\<lambda>x. Message_count (snd x)) stats) = 0"
      by (simp add: st nansum_def comp_def)
    from True fs c m total_calls [OF group_keys_distinct, of df] senders_df
    show "fst ` set stats =
        Sender ` set (if filter not_positive_call no_urls = [] then no_urls
                      else filter not_positive_call no_urls)
      \<and> Call_Duration_sum (total_row True stats) =
        Some (call_total (filter (\<lambda>r. Sender r \<in> fst ` set stats) no_urls))
      \<and> Message_count (total_row True stats) = Some (length (filter not_positive_call no_urls))"
      by (simp add: total_row_def group_keys_set)
  next
    case False
    with agg_empty have st: "stats = map (\<lambda>x. (fst x, (snd x)\<lparr>Call_Duration_sum :=
          map_of ?call_sum (fst x)\<rparr>)) (message_agg ?rest)"
      by (simp add: stats_def assign_call_sum_def)
    have keys: "map fst stats = group_keys ?rest"
      by (simp add: st comp_def message_agg_keys [symmetric])
    then have fs: "fst ` set stats = set (group_keys ?rest)" by (metis set_map)
    have sub: "k \<in> set (group_keys df)" if "k \<in> set (group_keys ?rest)" for k
      using that by (auto simp: group_keys_set)
    have mc: "map (\<lambda>k. case map_of ?call_sum k of None \<Rightarrow> 0 | Some d \<Rightarrow> d) (group_keys ?rest)
        = map (\<lambda>k. call_total (group k df)) (group_keys ?rest)"
      by (rule map_cong) (simp_all add: map_of_keys sub)
    have c: "nansum (map (\<lambda>x. Call_Duration_sum (snd x)) stats)
        = sum_list (map (\<lambda>k. call_total (group k df)) (group_keys ?rest))"
      by (simp add: st nansum_def message_agg_def comp_def mc)
    have "nansum (map (\<lambda>x. Message_count (snd x)) stats)
        = sum_list (map (\<lambda>k. sum_list (map (\<lambda>r. 1) (filter (\<lambda>r. Sender r = k) ?rest)))
            (group_keys ?rest))"
      by (simp add: st nansum_def message_agg_def comp_def group_def sum_list_triv)
    also have "\<dots> = sum_list (map (\<lambda>r. 1::nat)
        (filter (\<lambda>r. Sender r \<in> set (group_keys ?rest)) ?rest))"
      by (rule sum_groups) (rule group_keys_distinct)
    also have "\<dots> = length ?rest"
    proof -
      have "filter (\<lambda>r. Sender r \<in> set (group_keys ?rest)) ?rest = ?rest"
        by (rule filter_True) (simp add: group_keys_set)
      then show ?thesis by (simp only: sum_list_triv) simp
    qed
    also have "\<dots> = length (filter not_positive_call no_urls)" by (simp add: fm)
    finally have m: "nansum (map (\<lambda>x. Message_count (snd x)) stats)
        = length (filter not_positive_call no_urls)" .
    from False fs c m total_calls [OF group_keys_distinct, of ?rest] senders_rest
    show "fst ` set stats =
        Sender ` set (if filter not_positive_call no_urls = [] then no_urls
                      else filter not_positive_call no_urls)
      \<and> Call_Duration_sum (total_row True stats) =
        Some (call_total (filter (\<lambda>r. Sender r \<in> fst ` set stats) no_urls))
      \<and> Message_count (total_row True stats) = Some (length (filter not_positive_call no_urls))"
      by (simp add: total_row_def group_keys_set)
  qed
qed

lemma message_stats_no_calls:
  assumes "{''Message'', ''Sender'', ''Word Count''} \<subseteq> set (columns t)"
    and "''Call Duration (Sec)'' \<notin> set (columns t)"
  shows "\<exists>stats. message_stats E t = Inr (stats @ [(ascii ''Total'', total_row False stats)])"
  using assms by (simp add: message_stats_def Let_def)

lemmas stats_defs =
  message_agg_def group_keys_def group_def call_total_def
  not_positive_call_def total_row_def assign_call_sum_def nansum_def

lemma calls_file_sf: "sf_clean_messages small_env [calls_file] = Inr calls_table"
  by (simp add: calls_file_def calls_table_def call_row_def
      pipeline_defs text_defs small_env_defs)

lemma calls_table_stats:
  "message_stats small_env calls_table =
     Inr [(ascii ''Alice'', \<lparr>Message_count = Some 1, Word_Count_sum = Some 2,
                             Call_Duration_sum = Some 0\<rparr>),
          (ascii ''Total'', \<lparr>Message_count = Some 1, Word_Count_sum = Some 2,
                             Call_Duration_sum = Some 0\<rparr>)]"
proof -
  have a: "filter (\<lambda>r. \<not> str_contains http (Message r)) (rows calls_table) = rows calls_table"
    by (simp add: calls_table_def call_row_def http_def ascii_def)
  have b: "map (\<lambda>r. r\<lparr>Message := join (prep_text small_env False (Message r))\<rparr>) (rows calls_table)
      = [\<lparr>Sender = ascii ''Alice'', Title = None, Timestamp = 1700000000000, Date = 19675,
          Time = 62000000, Message = ascii ''hi there'', Call_Duration = None,
          Word_Count = 2, Emoji_Count = 0\<rparr>,
         \<lparr>Sender = ascii ''Bob'', Title = None, Timestamp = 1700000002000, Date = 19675,
          Time = 62002000, Message = ascii ''You called Alice'', Call_Duration = Some 60,
          Word_Count = 0, Emoji_Count = 0\<rparr>]"
    by (simp add: calls_table_def call_row_def text_defs small_env_def)
  have c: "columns calls_table = [''Sender'', ''timestamp_ms'', ''Date'', ''Time'', ''Message'',
                 ''Call Duration (Sec)'', ''Word Count'', ''Emoji Count'']"
    by (simp add: calls_table_def)
  show ?thesis
    by (simp add: message_stats_def a b c) (simp add: stats_defs ascii_def)
qed

lemma url_table_stats:
  "message_stats small_env url_table =
     Inr [(ascii ''Bob'', \<lparr>Message_count = None, Word_Count_sum = None,
                           Call_Duration_sum = Some 60\<rparr>),
          (ascii ''Total'', \<lparr>Message_count = Some 0, Word_Count_sum = Some 0,
                             Call_Duration_sum = Some 60\<rparr>)]"
proof -
  have a: "filter (\<lambda>r. \<not> str_contains http (Message r)) (rows url_table) = [call_row]"
    by (simp add: url_table_def url_row_def call_row_def http_def ascii_def)
  have b: "map (\<lambda>r. r\<lparr>Message := join (prep_text small_env False (Message r))\<rparr>) [call_row]
      = [\<lparr>Sender = ascii ''Bob'', Title = None, Timestamp = 1700000002000, Date = 19675,
          Time = 62002000, Message = ascii ''You called Alice'', Call_Duration = Some 60,
          Word_Count = 0, Emoji_Count = 0\<rparr>]"
    by (simp add: call_row_def text_defs small_env_def)
  have c: "columns url_table = [''Sender'', ''timestamp_ms'', ''Date'', ''Time'', ''Message'',
                 ''Call Duration (Sec)'', ''Word Count'', ''Emoji Count'']"
    by (simp add: url_table_def)
  show ?thesis
    by (simp add: message_stats_def a b c) (simp add: stats_defs ascii_def call_row_def)
qed

section \<open>The claims\<close>

subsection \<open>C1: a failed repair of the encoding\<close>

text \<open>
  C1 (as the code has it). When the repair of the encoding fails for one message that
  reaches it, that is, a message that passes the content filter and has a text, the
  exception leaves \<open>clean_messages\<close>: the run ends with UnicodeEncodeError or
  UnicodeDecodeError, in single\_folder.py and (where the raw table has the column
  \<open>call_duration\<close>) in all\_folders.py. No row falls back to its original text.
\<close>

theorem repair_failure_aborts:
  assumes "unicode_emoji_converter s = Inl e" and "content (snd x) = Some s"
  shows "(sf_all_messages E directory = Inr raw \<and> x \<in> set (purge sf_retain_columns raw) \<longrightarrow>
            sf_clean_messages E directory = Inl UnicodeEncodeError
          \<or> sf_clean_messages E directory = Inl UnicodeDecodeError)
       \<and> (all_folder E root = Inr raw' \<and> x \<in> set (purge af_retain_columns raw')
            \<and> has_call_duration raw' \<longrightarrow>
            af_clean_messages E root = Inl UnicodeEncodeError
          \<or> af_clean_messages E root = Inl UnicodeDecodeError)"
proof -
  have st: "for_each repair (sort_key k (dropna_Message E (purge retain df))) = Inl UnicodeEncodeError
       \<or> for_each repair (sort_key k (dropna_Message E (purge retain df))) = Inl UnicodeDecodeError"
    if mem: "x \<in> set (purge retain df)" for k :: "frame_row \<Rightarrow> 'k::linorder" and retain df
  proof -
    obtain r where "r \<in> set (dropna_Message E (purge retain df))" "Message r = s"
      using dropna_Message_mem [OF mem assms(2)] by blast
    then show ?thesis using repair_stage_raises [of r _ e k] assms(1) by simp
  qed
  have c: "has_content df" if "x \<in> set (purge retain df)" for retain df
    using that assms(2) by (blast intro: has_content_mem purge_subset)
  show ?thesis
  proof (intro conjI impI)
    assume "sf_all_messages E directory = Inr raw \<and> x \<in> set (purge sf_retain_columns raw)"
    then show "sf_clean_messages E directory = Inl UnicodeEncodeError
          \<or> sf_clean_messages E directory = Inl UnicodeDecodeError"
      using c [of sf_retain_columns raw] st [of sf_retain_columns raw Timestamp]
      by (auto simp: sf_clean_messages_def Let_def)
  next
    assume "all_folder E root = Inr raw' \<and> x \<in> set (purge af_retain_columns raw')
            \<and> has_call_duration raw'"
    then show "af_clean_messages E root = Inl UnicodeEncodeError
          \<or> af_clean_messages E root = Inl UnicodeDecodeError"
      using c [of af_retain_columns raw'] st [of af_retain_columns raw' "\<lambda>r. (Date r, Time r)"]
      by (auto simp: af_clean_messages_def Let_def)
  qed
qed

text \<open>
  The theorem at the export \<open>bad_file\<close>, whose second message cannot be repaired.
\<close>

theorem repair_failure_aborts_witness:
  "unicode_emoji_converter [99, 97, 102, 233] = Inl UnicodeDecodeError
   \<and> content (snd (None, bad_message)) = Some [99, 97, 102, 233]
   \<and> sf_all_messages small_env [bad_file] = Inr (map (Pair None) (messages bad_file))
   \<and> (None, bad_message) \<in> set (purge sf_retain_columns (map (Pair None) (messages bad_file)))
   \<and> (sf_clean_messages small_env [bad_file] = Inl UnicodeEncodeError
      \<or> sf_clean_messages small_env [bad_file] = Inl UnicodeDecodeError)"
proof -
  have h1: "unicode_emoji_converter [99, 97, 102, 233] = Inl UnicodeDecodeError"
    by (simp add: unicode_emoji_converter_def latin1_encode_def utf8_next_def continuation_def)
  have h2: "content (snd (None, bad_message)) = Some [99, 97, 102, 233]"
    by (simp add: bad_message_def)
  have h3: "sf_all_messages small_env [bad_file] = Inr (map (Pair None) (messages bad_file))"
    by (simp add: sf_all_messages_def sf_chat_db_def pd_concat_def bad_file_def bad_message_def
        small_env_def)
  have h4: "(None, bad_message) \<in> set (purge sf_retain_columns (map (Pair None) (messages bad_file)))"
    by (simp add: purge_def bad_file_def bad_message_def)
  from repair_failure_aborts [OF h1 h2, of small_env "[bad_file]"
      "map (Pair None) (messages bad_file)"] h3 h4
  have "sf_clean_messages small_env [bad_file] = Inl UnicodeEncodeError
      \<or> sf_clean_messages small_env [bad_file] = Inl UnicodeDecodeError"
    by blast
  with h1 h2 h3 h4 show ?thesis by blast
qed

text \<open>
  C1 as the specification words it fails: one message that cannot be repaired ends the
  whole run, in both modules, though the other messages of the export are sound.
\<close>

theorem repair_failure_counterexample:
  "sf_clean_messages small_env [bad_file] = Inl UnicodeDecodeError
   \<and> af_clean_messages small_env [Folder [bad_file]] = Inl UnicodeDecodeError"
  by (simp add: sf_clean_messages_def af_clean_messages_def bad_file_def bad_message_def
      sf_all_messages_def sf_chat_db_def all_folder_def af_all_messages_def af_chat_db_def
      pd_concat_def sf_retain_columns_def af_retain_columns_def
      purge_def has_content_def has_call_duration_def dropna_Message_def List.map_filter_def
      project_def repair_def ascii_def
      unicode_emoji_converter_def latin1_encode_def utf8_next_def continuation_def Let_def small_env_def)

subsection \<open>C2: the word count of calls and of links\<close>

text \<open>
  C2. In every row of a table that \<open>clean_messages\<close> returns, in single\_folder.py and in
  all\_folders.py: a call duration that is not null and is at least 0 comes with the word
  count 0, and a message that contains \<open>http\<close> comes with the word count 0. So a row with
  the message \<open>check http://x.com now\<close> has the word count 0, though \<open>word_count\<close> finds
  three words in it.
\<close>

theorem word_count_zeroing:
  assumes "sf_clean_messages E directory = Inr t \<or> af_clean_messages E root = Inr t"
    and "r \<in> set (rows t)"
  shows "(\<forall>d. Call_Duration r = Some d \<and> 0 \<le> d \<longrightarrow> Word_Count r = 0)
       \<and> (str_contains http (Message r) \<longrightarrow> Word_Count r = 0)
       \<and> (Message r = ascii ''check http://x.com now'' \<longrightarrow> Word_Count r = 0)
       \<and> word_count E (ascii ''check http://x.com now'') = 3"
proof -
  have final: "(\<forall>d. Call_Duration r = Some d \<and> 0 \<le> d \<longrightarrow> Word_Count r = 0)
       \<and> (str_contains http (Message r) \<longrightarrow> Word_Count r = 0)"
    if rw: "rows t = map (add_emoji_count E) (zero_url_words df)"
      and df: "\<And>r d. r \<in> set df \<Longrightarrow> Call_Duration r = Some d \<Longrightarrow> 0 \<le> d \<Longrightarrow> Word_Count r = 0"
    for df
  proof -
    from assms(2) rw obtain q where q: "q \<in> set (zero_url_words df)" "r = add_emoji_count E q"
      by auto
    have "Word_Count q = 0" if "Call_Duration q = Some d" "0 \<le> d" for d
      using q(1) that df by (auto simp: zero_url_words_def split: if_splits)
    moreover have "Word_Count q = 0" if "str_contains http (Message q)"
      using zero_url_words_zeroed [OF q(1) that] .
    ultimately show ?thesis by (simp add: q(2) add_emoji_count_simps)
  qed
  have main: "(\<forall>d. Call_Duration r = Some d \<and> 0 \<le> d \<longrightarrow> Word_Count r = 0)
       \<and> (str_contains http (Message r) \<longrightarrow> Word_Count r = 0)"
    using assms(1)
  proof
    assume "sf_clean_messages E directory = Inr t"
    then obtain raw repaired where
      rp: "for_each repair (sort_key Timestamp (dropna_Message E (purge sf_retain_columns raw)))
             = Inr repaired"
      and rw: "rows t = map (add_emoji_count E) (zero_url_words
        (if has_call_duration raw
         then zero_call_words (drop_zero_calls (map (add_word_count E) repaired))
         else map (add_word_count E) repaired))"
      by (rule sf_clean_messages_rows)
    show ?thesis
    proof (cases "has_call_duration raw")
      case True
      with rw show ?thesis by (intro final [of "zero_call_words _"]) (auto dest: zero_call_words_zeroed)
    next
      case False
      have "Call_Duration q = None" if "q \<in> set repaired" for q
        using for_each_repair_calls [OF rp _ that] no_call_column [OF False] by simp
      then have "\<And>q d. q \<in> set (map (add_word_count E) repaired) \<Longrightarrow> Call_Duration q = Some d
          \<Longrightarrow> 0 \<le> d \<Longrightarrow> Word_Count q = 0"
        by (auto simp: add_word_count_simps)
      with rw False show ?thesis by (intro final [of "map (add_word_count E) repaired"]) auto
    qed
  next
    assume "af_clean_messages E root = Inr t"
    then obtain raw repaired where
      rw: "rows t = map (add_emoji_count E) (zero_url_words
        (zero_call_words (drop_zero_calls (map (add_word_count E) repaired))))"
      by (rule af_clean_messages_rows)
    then show ?thesis by (intro final [of "zero_call_words _"]) (auto dest: zero_call_words_zeroed)
  qed
  have url: "str_contains http (ascii ''check http://x.com now'')"
    by (simp add: http_def ascii_def)
  have wc: "word_count E (ascii ''check http://x.com now'') = 3"
    by (simp add: word_count_def prep_text_def str_split_def ascii_def re_w_def re_d_def re_s_def
        ascii_letter_def)
  from main url wc show ?thesis by auto
qed

text \<open>The theorem at the export \<open>url_file\<close>, on the row of its link.\<close>

theorem word_count_zeroing_witness:
  "sf_clean_messages small_env [url_file] = Inr url_table
   \<and> url_row \<in> set (rows url_table)
   \<and> Message url_row = ascii ''check http://x.com now''
   \<and> Word_Count url_row = 0
   \<and> word_count small_env (ascii ''check http://x.com now'') = 3"
proof -
  have h2: "url_row \<in> set (rows url_table)" by (simp add: url_table_def)
  have h3: "Message url_row = ascii ''check http://x.com now''" by (simp add: url_row_def)
  from word_count_zeroing [OF disjI1 [OF url_file_sf] h2] h3
  have "Word_Count url_row = 0 \<and> word_count small_env (ascii ''check http://x.com now'') = 3"
    by blast
  with url_file_sf h2 h3 show ?thesis by blast
qed

subsection \<open>C3: empty input\<close>




subsection \<open>C4: the scenario of two records\<close>

text \<open>
  C4 (as the code has it). Given the two records of Alice, the first with the text
  \<open>Hello\<close>, grinning face, \<open>world\<close> as an export holds it (the UTF-8 bytes of the emoji
  read as Latin-1 characters), the second a call of 5 seconds without text:
  \<open>clean_messages\<close> returns exactly one row, with the message repaired, the word count 2
  and the emoji count 1; the call has no message and is dropped. This holds in both
  modules, at every instant \<open>T\<close> such that \<open>T\<close> and \<open>T + 1000\<close> are in the bounds of
  the time stamps of pandas, for every Unicode database in which U+1F600 is no letter,
  digit or space and every \<open>emoji_count\<close> that counts one emoji in the message.
\<close>

theorem alice_scenario:
  assumes "emoji_count E hello_text = 1"
    and "\<not> unicode_alnum E 128512" and "\<not> unicode_decimal E 128512"
    and "\<not> unicode_space E 128512"
    and "in_bounds E T" and "in_bounds E (T + 1000)"
  shows "sf_clean_messages E [alice_file hello_export T] =
      Inr \<lparr>columns = [''Sender'', ''timestamp_ms'', ''Date'', ''Time'', ''Message'',
                       ''Call Duration (Sec)'', ''Word Count'', ''Emoji Count''],
           rows = [\<lparr>Sender = ascii ''Alice'', Title = None, Timestamp = T,
                    Date = dt_date E T, Time = dt_time E T, Message = hello_text,
                    Call_Duration = None, Word_Count = 2, Emoji_Count = 1\<rparr>]\<rparr>
    \<and> af_clean_messages E [Folder [alice_file hello_export T]] =
      Inr \<lparr>columns = [''Sender'', ''Title'', ''timestamp_ms'', ''Date'', ''Time'', ''Message'',
                       ''Call Duration (Sec)'', ''Word Count'', ''Emoji Count''],
           rows = [\<lparr>Sender = ascii ''Alice'', Title = Some (ascii ''Chat''), Timestamp = T,
                    Date = dt_date E T, Time = dt_time E T, Message = hello_text,
                    Call_Duration = None, Word_Count = 2, Emoji_Count = 1\<rparr>]\<rparr>"
proof -
  have conv: "unicode_emoji_converter hello_export = Inr hello_text"
    by (simp add: hello_export_def hello_text_def unicode_emoji_converter_def latin1_encode_def
        utf8_next_def continuation_def)
  have wc: "word_count E hello_text = 2"
    using assms(2-4)
    by (simp add: hello_text_def word_count_def prep_text_def str_split_def re_w_def re_d_def
        re_s_def ascii_letter_def)
  have nourl: "\<not> str_contains http hello_text"
    by (simp add: hello_text_def http_def ascii_def)
  have msgs: "messages (alice_file hello_export T) =
        [\<lparr>sender_name = ascii ''Alice'', timestamp_ms = T,
          content = Some hello_export, call_duration = None, other = []\<rparr>,
         \<lparr>sender_name = ascii ''Alice'', timestamp_ms = T + 1000,
          content = None, call_duration = Some 5, other = []\<rparr>]"
    by (simp add: alice_file_def)
  have sf: "sf_all_messages E [alice_file hello_export T] =
      Inr (map (Pair None) (messages (alice_file hello_export T)))"
    using assms(5,6) by (simp add: sf_all_messages_def sf_chat_db_def pd_concat_def alice_file_def small_env_def)
  have af: "all_folder E [Folder [alice_file hello_export T]] =
      Inr (map (Pair (Some (ascii ''Chat''))) (messages (alice_file hello_export T)))"
    using assms(5,6)
    by (simp add: all_folder_def af_all_messages_def af_chat_db_def pd_concat_def alice_file_def small_env_def)
  have c1: "sf_clean_messages E [alice_file hello_export T] =
      Inr \<lparr>columns = [''Sender'', ''timestamp_ms'', ''Date'', ''Time'', ''Message'',
                       ''Call Duration (Sec)'', ''Word Count'', ''Emoji Count''],
           rows = [\<lparr>Sender = ascii ''Alice'', Title = None, Timestamp = T,
                    Date = dt_date E T, Time = dt_time E T, Message = hello_text,
                    Call_Duration = None, Word_Count = 2, Emoji_Count = 1\<rparr>]\<rparr>"
    using assms(1) conv wc nourl
    by (simp add: sf_clean_messages_def sf msgs sf_retain_columns_def
        purge_def has_content_def has_call_duration_def dropna_Message_def List.map_filter_def
        project_def repair_def add_word_count_def add_emoji_count_def drop_zero_calls_def
        zero_call_words_def zero_url_words_def frame_row.defs counted_row.defs message_row.defs)
  have c2: "af_clean_messages E [Folder [alice_file hello_export T]] =
      Inr \<lparr>columns = [''Sender'', ''Title'', ''timestamp_ms'', ''Date'', ''Time'', ''Message'',
                       ''Call Duration (Sec)'', ''Word Count'', ''Emoji Count''],
           rows = [\<lparr>Sender = ascii ''Alice'', Title = Some (ascii ''Chat''), Timestamp = T,
                    Date = dt_date E T, Time = dt_time E T, Message = hello_text,
                    Call_Duration = None, Word_Count = 2, Emoji_Count = 1\<rparr>]\<rparr>"
    using assms(1) conv wc nourl
    by (simp add: af_clean_messages_def af msgs af_retain_columns_def
        purge_def has_content_def has_call_duration_def dropna_Message_def List.map_filter_def
        project_def repair_def add_word_count_def add_emoji_count_def drop_zero_calls_def
        zero_call_words_def zero_url_words_def frame_row.defs counted_row.defs message_row.defs)
  from c1 c2 show ?thesis by blast
qed

text \<open>The theorem with the small emoji table, at an instant of November 2023.\<close>

theorem alice_scenario_witness:
  "emoji_count small_env hello_text = 1
   \<and> \<not> unicode_alnum small_env 128512 \<and> \<not> unicode_decimal small_env 128512
   \<and> \<not> unicode_space small_env 128512
   \<and> in_bounds small_env 1700000000000 \<and> in_bounds small_env (1700000000000 + 1000)
   \<and> sf_clean_messages small_env [alice_file hello_export 1700000000000] =
      Inr \<lparr>columns = [''Sender'', ''timestamp_ms'', ''Date'', ''Time'', ''Message'',
                       ''Call Duration (Sec)'', ''Word Count'', ''Emoji Count''],
           rows = [\<lparr>Sender = ascii ''Alice'', Title = None, Timestamp = 1700000000000,
                    Date = 19675, Time = 62000000, Message = hello_text,
                    Call_Duration = None, Word_Count = 2, Emoji_Count = 1\<rparr>]\<rparr>"
proof -
  have h1: "emoji_count small_env hello_text = 1"
    by (simp add: small_env_defs hello_text_def)
  have h2: "\<not> unicode_alnum small_env 128512" "\<not> unicode_decimal small_env 128512"
    "\<not> unicode_space small_env 128512"
    by (simp_all add: small_env_def)
  have d: "dt_date small_env 1700000000000 = 19675" "dt_time small_env 1700000000000 = 62000000"
    by (simp_all add: dt_date_def dt_time_def local_ms_def small_env_defs)
  have h3: "in_bounds small_env 1700000000000" "in_bounds small_env (1700000000000 + 1000)"
    by (simp_all add: small_env_def)
  from alice_scenario [OF h1 h2 h3] d h1 h2 h3 show ?thesis by simp
qed

text \<open>
  C4 as the specification words it fails: when the content of the record is the text with
  the code point U+1F600 itself, the repair cannot encode it in Latin-1 and the run ends
  with UnicodeEncodeError.
\<close>

theorem alice_scenario_counterexample:
  "sf_clean_messages small_env [alice_file hello_text 1700000000000] = Inl UnicodeEncodeError
   \<and> af_clean_messages small_env [Folder [alice_file hello_text 1700000000000]]
       = Inl UnicodeEncodeError"
  by (simp add: alice_file_def hello_text_def pipeline_defs text_defs small_env_def)

subsection \<open>C5: the order of the rows\<close>

text \<open>
  C5 (as the code has it). The table of all\_folders.py is sorted by \<open>(Date, Time)\<close>. The
  table of single\_folder.py is sorted by the time stamp, and so by \<open>(Date, Time)\<close>
  whenever the local time of America/Toronto does not go back between the instants of two
  of its rows. Both hold of the table that is returned, after the rows with call duration
  0 are dropped and the word counts are set to 0.
\<close>

theorem rows_sorted:
  "(af_clean_messages E root = Inr t \<longrightarrow> sorted (map (\<lambda>r. (Date r, Time r)) (rows t)))
   \<and> (sf_clean_messages E directory = Inr t' \<longrightarrow>
        sorted (map Timestamp (rows t'))
        \<and> ((\<forall>a \<in> set (rows t'). \<forall>b \<in> set (rows t'). Timestamp a \<le> Timestamp b \<longrightarrow>
               local_ms E (Timestamp a) \<le> local_ms E (Timestamp b)) \<longrightarrow>
             sorted (map (\<lambda>r. (Date r, Time r)) (rows t'))))"
proof (intro conjI impI)
  assume "af_clean_messages E root = Inr t"
  then obtain raw where
    s: "subseq (map stamp (rows t))
       (map stamp (sort_key (\<lambda>r. (Date r, Time r))
          (dropna_Message E (purge af_retain_columns raw))))"
    by (rule af_stamps)
  have "sorted (map (\<lambda>r. (Date r, Time r)) (sort_key (\<lambda>r. (Date r, Time r))
          (dropna_Message E (purge af_retain_columns raw))))"
    by (rule sorted_sort_key)
  then have "sorted (map snd (map stamp (sort_key (\<lambda>r. (Date r, Time r))
          (dropna_Message E (purge af_retain_columns raw)))))"
    by (simp add: stamp_def comp_def)
  with subseq_map [OF s, of snd] have "sorted (map snd (map stamp (rows t)))"
    by (rule subseq_sorted)
  then show "sorted (map (\<lambda>r. (Date r, Time r)) (rows t))"
    by (simp add: stamp_def comp_def)
next
  assume a: "sf_clean_messages E directory = Inr t'"
  then obtain raw where
    s: "subseq (map stamp (rows t'))
       (map stamp (sort_key Timestamp (dropna_Message E (purge sf_retain_columns raw))))"
    by (rule sf_stamps)
  have "sorted (map Timestamp (sort_key Timestamp
          (dropna_Message E (purge sf_retain_columns raw))))"
    by (rule sorted_sort_key)
  then have "sorted (map fst (map stamp (sort_key Timestamp
          (dropna_Message E (purge sf_retain_columns raw)))))"
    by (simp add: stamp_def comp_def)
  with subseq_map [OF s, of fst] have "sorted (map fst (map stamp (rows t')))"
    by (rule subseq_sorted)
  then show ts: "sorted (map Timestamp (rows t'))"
    by (simp add: stamp_def comp_def)
  assume m: "\<forall>a \<in> set (rows t'). \<forall>b \<in> set (rows t'). Timestamp a \<le> Timestamp b \<longrightarrow>
      local_ms E (Timestamp a) \<le> local_ms E (Timestamp b)"
  have g: "(dt_date E x, dt_time E x) \<le> (dt_date E y, dt_time E y)"
    if "x \<in> set (map Timestamp (rows t'))" "y \<in> set (map Timestamp (rows t'))" "x \<le> y" for x y
  proof -
    from that m have "local_ms E x \<le> local_ms E y" by auto
    from div_mod_mono [OF this] show ?thesis by (simp add: dt_date_def dt_time_def)
  qed
  have "(Date r, Time r) = (dt_date E (Timestamp r), dt_time E (Timestamp r))"
    if "r \<in> set (rows t')" for r
  proof -
    from that have "stamp r \<in> set (map stamp (rows t'))" by simp
    then have "stamp r \<in> set (map stamp (dropna_Message E (purge sf_retain_columns raw)))"
      using subseq_setD [OF s] by fastforce
    from stamp_dropna [OF this] show ?thesis by (simp add: stamp_def)
  qed
  then have eq: "map (\<lambda>r. (Date r, Time r)) (rows t')
      = map (\<lambda>ts. (dt_date E ts, dt_time E ts)) (map Timestamp (rows t'))"
    by simp
  have "sorted (map (\<lambda>ts. (dt_date E ts, dt_time E ts)) (map Timestamp (rows t')))"
    by (rule sorted_map_mono [OF ts]) (rule g)
  then show "sorted (map (\<lambda>r. (Date r, Time r)) (rows t'))" by (simp only: eq)
qed

text \<open>
  The theorem at the export \<open>url_file\<close>, with the offsets of America/Toronto: both
  messages were sent in standard time.
\<close>

theorem rows_sorted_witness:
  "af_clean_messages small_env [Folder [url_file]] = Inr url_table_af
   \<and> sorted (map (\<lambda>r. (Date r, Time r)) (rows url_table_af))
   \<and> sf_clean_messages small_env [url_file] = Inr url_table
   \<and> sorted (map Timestamp (rows url_table))
   \<and> sorted (map (\<lambda>r. (Date r, Time r)) (rows url_table))"
proof -
  have m: "\<forall>a \<in> set (rows url_table). \<forall>b \<in> set (rows url_table). Timestamp a \<le> Timestamp b \<longrightarrow>
      local_ms small_env (Timestamp a) \<le> local_ms small_env (Timestamp b)"
    by (simp add: url_table_def url_row_def call_row_def local_ms_def small_env_def
        toronto_2023_def)
  from rows_sorted [of small_env "[Folder [url_file]]" url_table_af "[url_file]" url_table]
    url_file_af url_file_sf m
  show ?thesis by blast
qed

text \<open>
  C5 as the specification words it fails in single\_folder.py: of two messages sent in the
  night when the clocks go back, the later one has the earlier local time, and the table,
  sorted by the time stamp, is not sorted by \<open>(Date, Time)\<close>.
\<close>

theorem rows_sorted_counterexample:
  "sf_clean_messages small_env [dst_file] = Inr dst_table
   \<and> \<not> sorted (map (\<lambda>r. (Date r, Time r)) (rows dst_table))"
  using dst_file_sf by (simp add: dst_table_def less_eq_prod_def)

subsection \<open>C6: the extraction of the emoji\<close>

text \<open>
  C6. \<open>keep_only_emojis\<close> scans the text from left to right. Where no known emoji starts,
  it skips one character; where one starts, it takes the longest known emoji that starts
  there, as one token, and goes on behind it. The alternatives of the pattern are sorted
  the longest first, so the first that matches is the longest. The three equations fix
  the result for every text; all tokens are known emoji. The table of the emoji has no
  empty entry.
\<close>

theorem keep_only_emojis_maximal_munch:
  assumes "[] \<notin> set (EMOJI_DATA E)"
  shows "keep_only_emojis E [] = []
    \<and> (\<forall>c cs. (\<forall>e \<in> set (EMOJI_DATA E). \<not> prefix e (c # cs)) \<longrightarrow>
          keep_only_emojis E (c # cs) = keep_only_emojis E cs)
    \<and> (\<forall>e t. e \<in> set (EMOJI_DATA E) \<and> prefix e t
          \<and> (\<forall>e' \<in> set (EMOJI_DATA E). prefix e' t \<longrightarrow> length e' \<le> length e) \<longrightarrow>
          keep_only_emojis E t = e # keep_only_emojis E (drop (length e) t))
    \<and> (\<forall>t. set (keep_only_emojis E t) \<subseteq> set (EMOJI_DATA E))"
proof (intro conjI allI impI)
  have mem: "set (get_emoji_regexp E) = set (EMOJI_DATA E)"
    by (simp add: get_emoji_regexp_def sorted_len_reverse_props)
  with assms have "first_match (get_emoji_regexp E) [] = None"
    by (auto simp: first_match_None)
  then show "keep_only_emojis E [] = []" by (simp add: keep_only_emojis_def)
  show "keep_only_emojis E (c # cs) = keep_only_emojis E cs"
    if "\<forall>e \<in> set (EMOJI_DATA E). \<not> prefix e (c # cs)" for c cs
  proof -
    from that mem have "first_match (get_emoji_regexp E) (c # cs) = None"
      by (auto simp: first_match_None)
    then show ?thesis by (simp add: keep_only_emojis_def)
  qed
  show "keep_only_emojis E t = e # keep_only_emojis E (drop (length e) t)"
    if h: "e \<in> set (EMOJI_DATA E) \<and> prefix e t
          \<and> (\<forall>e' \<in> set (EMOJI_DATA E). prefix e' t \<longrightarrow> length e' \<le> length e)" for e t
  proof -
    from h have fm: "first_match (get_emoji_regexp E) t = Some e"
      using regexp_longest by blast
    from h assms have ne: "e \<noteq> []" by auto
    with h obtain c cs where t: "t = c # cs" by (cases t) auto
    with fm ne show ?thesis by (simp add: keep_only_emojis_def)
  qed
  show "set (keep_only_emojis E t) \<subseteq> set (EMOJI_DATA E)" for t
  proof -
    have "set (findall as t) \<subseteq> set as" for as :: "pystr list"
      by (induction as t rule: findall.induct)
        (auto split: option.splits if_splits dest: first_match_Some first_match_Some [OF sym])
    with mem show ?thesis by (auto simp: keep_only_emojis_def)
  qed
qed

text \<open>
  The theorem with the small emoji table, on a text with the thumbs up with a skin tone,
  which is one token and not the two emoji it is made of.
\<close>

theorem keep_only_emojis_maximal_munch_witness:
  "[] \<notin> set (EMOJI_DATA small_env)
   \<and> keep_only_emojis small_env [] = []
   \<and> keep_only_emojis small_env [97, 128077, 127997, 98, 128077]
      = keep_only_emojis small_env [128077, 127997, 98, 128077]
   \<and> keep_only_emojis small_env [128077, 127997, 98, 128077]
      = [128077, 127997] # keep_only_emojis small_env [98, 128077]
   \<and> keep_only_emojis small_env [97, 128077, 127997, 98, 128077] = [[128077, 127997], [128077]]"
proof -
  have h: "[] \<notin> set (EMOJI_DATA small_env)"
    by (simp add: small_env_def small_emoji_data_def)
  note th = keep_only_emojis_maximal_munch [OF h]
  have e1: "keep_only_emojis small_env [] = []" using th by blast
  have "\<forall>e \<in> set (EMOJI_DATA small_env). \<not> prefix e [97, 128077, 127997, 98, 128077]"
    by (simp add: small_env_def small_emoji_data_def)
  with th have e2: "keep_only_emojis small_env [97, 128077, 127997, 98, 128077]
      = keep_only_emojis small_env [128077, 127997, 98, 128077]" by blast
  have "[128077, 127997] \<in> set (EMOJI_DATA small_env)
     \<and> prefix [128077, 127997] [128077, 127997, 98, 128077]
     \<and> (\<forall>e' \<in> set (EMOJI_DATA small_env). prefix e' [128077, 127997, 98, 128077]
          \<longrightarrow> length e' \<le> length [128077, 127997 :: nat])"
    by (simp add: small_env_def small_emoji_data_def)
  with th have "keep_only_emojis small_env [128077, 127997, 98, 128077]
      = [128077, 127997] # keep_only_emojis small_env (drop (length [128077, 127997 :: nat])
          [128077, 127997, 98, 128077])" by blast
  then have e3: "keep_only_emojis small_env [128077, 127997, 98, 128077]
      = [128077, 127997] # keep_only_emojis small_env [98, 128077]" by simp
  have e4: "keep_only_emojis small_env [98, 128077] = [[128077]]"
    by (simp add: keep_only_emojis_def get_emoji_regexp_def small_env_defs)
  from h e1 e2 e3 e4 show ?thesis by simp
qed

subsection \<open>C7: the row Total of the statistics\<close>

text \<open>
  C7, at an input where the code departs from it. In the export \<open>calls_file\<close> Bob placed
  one call of 60 seconds and wrote nothing. \<open>message_stats\<close> gives Alice one message and
  two words, gives Bob no row, and its row \<open>Total\<close> has the call duration 0, while the
  call durations of the cleaned table sum to 60. (The message count of \<open>Total\<close> is right:
  one row has no link and is no call.)
\<close>

theorem call_seconds_lost:
  "sf_clean_messages small_env [calls_file] = Inr calls_table
   \<and> message_stats small_env calls_table =
       Inr [(ascii ''Alice'', \<lparr>Message_count = Some 1, Word_Count_sum = Some 2,
                               Call_Duration_sum = Some 0\<rparr>),
            (ascii ''Total'', \<lparr>Message_count = Some 1, Word_Count_sum = Some 2,
                               Call_Duration_sum = Some 0\<rparr>)]
   \<and> call_total (rows calls_table) = 60"
proof -
  have "call_total (rows calls_table) = 60"
    by (simp add: calls_table_def call_row_def call_total_def)
  with calls_file_sf calls_table_stats show ?thesis by simp
qed

subsection \<open>C8: an export without calls\<close>

text \<open>
  C8, at an input where the code departs from it. The export \<open>dst_file\<close> has no call.
  \<open>clean_messages\<close> of single\_folder.py returns the table without the column
  \<open>Call Duration (Sec)\<close>; \<open>clean_messages\<close> of all\_folders.py, on the same export in a
  folder of the parent directory, raises KeyError, since its column order names the
  column whatever the columns.
\<close>

theorem missing_column_all_folders:
  "sf_clean_messages small_env [dst_file] = Inr dst_table
   \<and> ''Call Duration (Sec)'' \<notin> set (columns dst_table)
   \<and> af_clean_messages small_env [Folder [dst_file]] = Inl KeyError"
proof -
  have "af_clean_messages small_env [Folder [dst_file]] = Inl KeyError"
    by (simp add: dst_file_def af_clean_messages_def all_folder_def af_all_messages_def
        af_chat_db_def pd_concat_def has_content_def has_call_duration_def Let_def small_env_def)
  with dst_file_sf show ?thesis by (simp add: dst_table_def)
qed

subsection \<open>C9: top\_words on a table without the column of the calls\<close>

text \<open>
  C9. On every table that \<open>clean_messages\<close> of single\_folder.py returns without the
  column \<open>Call Duration (Sec)\<close>, \<open>top_words\<close> raises KeyError, since it indexes the
  column without a check, and \<open>message_stats\<close>, which checks for the column, returns its
  statistics.
\<close>

theorem top_words_missing_column:
  assumes "sf_clean_messages E directory = Inr t"
    and "''Call Duration (Sec)'' \<notin> set (columns t)"
  shows "top_words E t = Inl KeyError
      \<and> (\<exists>stats total. message_stats E t = Inr (stats @ [(ascii ''Total'', total)]))"
proof -
  from assms(1) obtain raw where
    "columns t = (if has_call_duration raw
         then [''Sender'', ''timestamp_ms'', ''Date'', ''Time'', ''Message'', ''Call Duration (Sec)'',
               ''Word Count'', ''Emoji Count'']
         else [''Sender'', ''timestamp_ms'', ''Date'', ''Time'', ''Message'',
               ''Word Count'', ''Emoji Count''])"
    by (rule sf_clean_messages_rows)
  with assms(2) have c: "columns t = [''Sender'', ''timestamp_ms'', ''Date'', ''Time'', ''Message'',
               ''Word Count'', ''Emoji Count'']"
    by (auto split: if_splits)
  then have "top_words E t = Inl KeyError"
    by (simp add: top_words_def Let_def)
  moreover from c message_stats_no_calls [of t E]
  have "\<exists>stats total. message_stats E t = Inr (stats @ [(ascii ''Total'', total)])"
    by auto
  ultimately show ?thesis by blast
qed

text \<open>The theorem at the export \<open>dst_file\<close>, which has no call.\<close>

theorem top_words_missing_column_witness:
  "sf_clean_messages small_env [dst_file] = Inr dst_table
   \<and> ''Call Duration (Sec)'' \<notin> set (columns dst_table)
   \<and> top_words small_env dst_table = Inl KeyError
   \<and> (\<exists>stats total. message_stats small_env dst_table = Inr (stats @ [(ascii ''Total'', total)]))"
proof -
  have h: "''Call Duration (Sec)'' \<notin> set (columns dst_table)"
    by (simp add: dst_table_def)
  from top_words_missing_column [OF dst_file_sf h] dst_file_sf h show ?thesis by blast
qed

subsection \<open>C10: a sender with calls only\<close>

text \<open>
  C10 (as the code has it). Let the table have the column of the call durations, a sender
  all of whose rows have a positive call duration, and at least one row that holds no
  link and is no call of positive duration. Then \<open>message_stats\<close> returns no row for that
  sender, and the call duration of its row \<open>Total\<close> is the sum over the rows without a
  link of the senders that do have a row: the seconds of that sender are in neither.
\<close>

theorem call_only_sender_dropped:
  assumes "{''Message'', ''Sender'', ''Word Count'', ''Call Duration (Sec)''} \<subseteq> set (columns t)"
    and "s \<in> Sender ` set (rows t)"
    and "\<forall>r \<in> set (rows t). Sender r = s \<longrightarrow> (\<exists>d. Call_Duration r = Some d \<and> 0 < d)"
    and "\<exists>r \<in> set (rows t). \<not> str_contains http (Message r) \<and> not_positive_call r"
  shows "\<exists>stats total. message_stats E t = Inr (stats @ [(ascii ''Total'', total)])
      \<and> s \<notin> fst ` set stats
      \<and> Call_Duration_sum total =
          Some (call_total (filter (\<lambda>r. Sender r \<in> fst ` set stats)
                  (filter (\<lambda>r. \<not> str_contains http (Message r)) (rows t))))"
proof -
  let ?no_urls = "filter (\<lambda>r. \<not> str_contains http (Message r)) (rows t)"
  let ?df = "map (\<lambda>r. r\<lparr>Message := join (prep_text E False (Message r))\<rparr>) ?no_urls"
  let ?stats = "assign_call_sum (map (\<lambda>s. (s, call_total (group s ?df))) (group_keys ?df))
      (message_agg (filter not_positive_call ?df))"
  note ms = message_stats_calls [OF assms(1), of E]
  from assms(4) have ne: "filter not_positive_call ?no_urls \<noteq> []"
    by (auto simp: filter_empty_conv)
  have "s \<notin> Sender ` set (filter not_positive_call ?no_urls)"
    using assms(3) by (auto simp: not_positive_call_def)
  with ms(2) ne have "s \<notin> fst ` set ?stats" by simp
  with ms(1) ms(3) show ?thesis by blast
qed

text \<open>The theorem at the cleaned table of \<open>calls_file\<close>, for Bob; the row of Alice is no call.\<close>

theorem call_only_sender_dropped_witness:
  "{''Message'', ''Sender'', ''Word Count'', ''Call Duration (Sec)''} \<subseteq> set (columns calls_table)
   \<and> ascii ''Bob'' \<in> Sender ` set (rows calls_table)
   \<and> Call_Duration call_row = Some 60
   \<and> (\<exists>r \<in> set (rows calls_table). \<not> str_contains http (Message r) \<and> not_positive_call r)
   \<and> (\<exists>stats total. message_stats small_env calls_table = Inr (stats @ [(ascii ''Total'', total)])
      \<and> ascii ''Bob'' \<notin> fst ` set stats
      \<and> Call_Duration_sum total =
          Some (call_total (filter (\<lambda>r. Sender r \<in> fst ` set stats)
                  (filter (\<lambda>r. \<not> str_contains http (Message r)) (rows calls_table)))))"
proof -
  have h1: "{''Message'', ''Sender'', ''Word Count'', ''Call Duration (Sec)''}
      \<subseteq> set (columns calls_table)"
    by (simp add: calls_table_def)
  have h2: "ascii ''Bob'' \<in> Sender ` set (rows calls_table)"
    by (simp add: calls_table_def call_row_def)
  have h3: "\<forall>r \<in> set (rows calls_table). Sender r = ascii ''Bob'' \<longrightarrow>
      (\<exists>d. Call_Duration r = Some d \<and> 0 < d)"
    by (simp add: calls_table_def call_row_def ascii_def)
  have h4: "Call_Duration call_row = Some 60" by (simp add: call_row_def)
  have h5: "\<exists>r \<in> set (rows calls_table). \<not> str_contains http (Message r) \<and> not_positive_call r"
    by (simp add: calls_table_def call_row_def not_positive_call_def http_def ascii_def)
  from call_only_sender_dropped [OF h1 h2 h3 h5, of small_env] h1 h2 h4 h5 show ?thesis by blast
qed

text \<open>
  C10 as it was worded fails: in the cleaned table of \<open>url_file\<close> the only row of Bob is
  a call of 60 seconds and the only other row holds a link, so that no row is left for
  the counts. Then the table of the counts is empty, the assignment of the call sums
  gives it their index, and Bob has a row with his 60 seconds, which \<open>Total\<close> has too.
\<close>

theorem call_only_sender_dropped_counterexample:
  "sf_clean_messages small_env [url_file] = Inr url_table
   \<and> filter (\<lambda>r. Sender r = ascii ''Bob'') (rows url_table) = [call_row]
   \<and> Call_Duration call_row = Some 60
   \<and> message_stats small_env url_table =
       Inr [(ascii ''Bob'', \<lparr>Message_count = None, Word_Count_sum = None,
                             Call_Duration_sum = Some 60\<rparr>),
            (ascii ''Total'', \<lparr>Message_count = Some 0, Word_Count_sum = Some 0,
                               Call_Duration_sum = Some 60\<rparr>)]"
proof -
  have "filter (\<lambda>r. Sender r = ascii ''Bob'') (rows url_table) = [call_row]"
    by (simp add: url_table_def url_row_def call_row_def ascii_def)
  moreover have "Call_Duration call_row = Some 60" by (simp add: call_row_def)
  ultimately show ?thesis using url_file_sf url_table_stats by simp
qed

section \<open>Further properties\<close>

subsection \<open>What message\_stats computes\<close>

text \<open>
  On a table with the column of the call durations, call the rows that hold no link and
  are no call of positive duration the rows that count. \<open>message_stats\<close> has a row for
  each sender of a row that counts; when no row counts, it has a row for each sender of a
  row without a link. The message count of \<open>Total\<close> is the number of the rows that
  count; its call duration is the sum over the rows without a link of the senders that
  have a row.
\<close>

theorem stats_total:
  assumes "{''Message'', ''Sender'', ''Word Count'', ''Call Duration (Sec)''} \<subseteq> set (columns t)"
  shows "\<exists>stats total. message_stats E t = Inr (stats @ [(ascii ''Total'', total)])
      \<and> fst ` set stats =
          Sender ` set
            (if filter not_positive_call
                  (filter (\<lambda>r. \<not> str_contains http (Message r)) (rows t)) = []
             then filter (\<lambda>r. \<not> str_contains http (Message r)) (rows t)
             else filter not_positive_call
                    (filter (\<lambda>r. \<not> str_contains http (Message r)) (rows t)))
      \<and> Message_count total =
          Some (length (filter not_positive_call
                    (filter (\<lambda>r. \<not> str_contains http (Message r)) (rows t))))
      \<and> Call_Duration_sum total =
          Some (call_total (filter (\<lambda>r. Sender r \<in> fst ` set stats)
                  (filter (\<lambda>r. \<not> str_contains http (Message r)) (rows t))))"
  using message_stats_calls [OF assms, of E] by blast

text \<open>The theorem at the cleaned table of \<open>calls_file\<close>.\<close>

theorem stats_total_witness:
  "{''Message'', ''Sender'', ''Word Count'', ''Call Duration (Sec)''} \<subseteq> set (columns calls_table)
   \<and> (\<exists>stats total. message_stats small_env calls_table = Inr (stats @ [(ascii ''Total'', total)])
      \<and> Message_count total =
          Some (length (filter not_positive_call
                    (filter (\<lambda>r. \<not> str_contains http (Message r)) (rows calls_table))))
      \<and> Call_Duration_sum total =
          Some (call_total (filter (\<lambda>r. Sender r \<in> fst ` set stats)
                  (filter (\<lambda>r. \<not> str_contains http (Message r)) (rows calls_table)))))"
proof -
  have h: "{''Message'', ''Sender'', ''Word Count'', ''Call Duration (Sec)''}
      \<subseteq> set (columns calls_table)"
    by (simp add: calls_table_def)
  from stats_total [OF h, of small_env] h show ?thesis by blast
qed

subsection \<open>No call of duration zero\<close>

text \<open>No row of a table that \<open>clean_messages\<close> returns, in either module, has the call duration 0.\<close>

theorem no_zero_duration:
  assumes "sf_clean_messages E directory = Inr t \<or> af_clean_messages E root = Inr t"
    and "r \<in> set (rows t)"
  shows "Call_Duration r \<noteq> Some 0"
proof -
  have final: "Call_Duration r \<noteq> Some 0"
    if rw: "rows t = map (add_emoji_count E) (zero_url_words df)"
      and df: "\<And>q. q \<in> set df \<Longrightarrow> Call_Duration q \<noteq> Some 0" for df
  proof -
    from assms(2) rw obtain q where q: "q \<in> set (zero_url_words df)" "r = add_emoji_count E q"
      by auto
    from zero_url_words_nonzero [OF _ q(1)] df have "Call_Duration q \<noteq> Some 0" by blast
    then show ?thesis by (simp add: q(2) add_emoji_count_simps)
  qed
  from assms(1) show ?thesis
  proof
    assume "sf_clean_messages E directory = Inr t"
    then obtain raw repaired where
      rp: "for_each repair (sort_key Timestamp (dropna_Message E (purge sf_retain_columns raw)))
             = Inr repaired"
      and rw: "rows t = map (add_emoji_count E) (zero_url_words
        (if has_call_duration raw
         then zero_call_words (drop_zero_calls (map (add_word_count E) repaired))
         else map (add_word_count E) repaired))"
      by (rule sf_clean_messages_rows)
    show ?thesis
    proof (cases "has_call_duration raw")
      case True
      with rw show ?thesis by (intro final [of "zero_call_words _"]) (auto dest: drop_zero_calls_nonzero)
    next
      case False
      have "Call_Duration q = None" if "q \<in> set repaired" for q
        using for_each_repair_calls [OF rp _ that] no_call_column [OF False] by simp
      then have "\<And>q. q \<in> set (map (add_word_count E) repaired) \<Longrightarrow> Call_Duration q \<noteq> Some 0"
        by (auto simp: add_word_count_simps)
      with rw False show ?thesis by (intro final [of "map (add_word_count E) repaired"]) auto
    qed
  next
    assume "af_clean_messages E root = Inr t"
    then obtain raw repaired where
      rw: "rows t = map (add_emoji_count E) (zero_url_words
        (zero_call_words (drop_zero_calls (map (add_word_count E) repaired))))"
      by (rule af_clean_messages_rows)
    then show ?thesis by (intro final [of "zero_call_words _"]) (auto dest: drop_zero_calls_nonzero)
  qed
qed

text \<open>The theorem at the export \<open>url_file\<close>, on the row of its call.\<close>

theorem no_zero_duration_witness:
  "af_clean_messages small_env [Folder [url_file]] = Inr url_table_af
   \<and> call_row\<lparr>Title := Some (ascii ''Chat'')\<rparr> \<in> set (rows url_table_af)
   \<and> Call_Duration (call_row\<lparr>Title := Some (ascii ''Chat'')\<rparr>) \<noteq> Some 0"
proof -
  have h: "call_row\<lparr>Title := Some (ascii ''Chat'')\<rparr> \<in> set (rows url_table_af)"
    by (simp add: url_table_af_def)
  from no_zero_duration [OF disjI2 [OF url_file_af] h] url_file_af h show ?thesis by blast
qed

subsection \<open>A raw table without the column call\_duration\<close>

text \<open>
  When no entry of the raw table has the key \<open>call_duration\<close>, \<open>clean_messages\<close> of
  single\_folder.py returns a table with the seven other columns, if it returns one, and
  \<open>clean_messages\<close> of all\_folders.py raises KeyError.
\<close>

theorem call_column_policy:
  "(sf_all_messages E directory = Inr raw \<and> \<not> has_call_duration raw
      \<and> sf_clean_messages E directory = Inr t \<longrightarrow>
      columns t = [''Sender'', ''timestamp_ms'', ''Date'', ''Time'', ''Message'',
                   ''Word Count'', ''Emoji Count''])
   \<and> (all_folder E root = Inr raw' \<and> \<not> has_call_duration raw' \<longrightarrow>
      af_clean_messages E root = Inl KeyError)"
  by (auto simp: sf_clean_messages_def af_clean_messages_def Let_def split: sum.splits if_splits)

text \<open>The theorem at the export \<open>dst_file\<close>.\<close>

theorem call_column_policy_witness:
  "sf_all_messages small_env [dst_file] = Inr (map (Pair None) (messages dst_file))
   \<and> \<not> has_call_duration (map (Pair None) (messages dst_file))
   \<and> sf_clean_messages small_env [dst_file] = Inr dst_table
   \<and> columns dst_table = [''Sender'', ''timestamp_ms'', ''Date'', ''Time'', ''Message'',
                   ''Word Count'', ''Emoji Count'']
   \<and> all_folder small_env [Folder [dst_file]] = Inr (map (Pair (Some (ascii ''Chat''))) (messages dst_file))
   \<and> \<not> has_call_duration (map (Pair (Some (ascii ''Chat''))) (messages dst_file))
   \<and> af_clean_messages small_env [Folder [dst_file]] = Inl KeyError"
proof -
  have h1: "sf_all_messages small_env [dst_file] = Inr (map (Pair None) (messages dst_file))"
    by (simp add: sf_all_messages_def sf_chat_db_def pd_concat_def dst_file_def small_env_def)
  have h2: "\<not> has_call_duration (map (Pair None) (messages dst_file))"
    by (simp add: has_call_duration_def dst_file_def)
  have h3: "all_folder small_env [Folder [dst_file]]
      = Inr (map (Pair (Some (ascii ''Chat''))) (messages dst_file))"
    by (simp add: all_folder_def af_all_messages_def af_chat_db_def pd_concat_def dst_file_def small_env_def)
  have h4: "\<not> has_call_duration (map (Pair (Some (ascii ''Chat''))) (messages dst_file))"
    by (simp add: has_call_duration_def dst_file_def)
  from call_column_policy [of small_env "[dst_file]" "map (Pair None) (messages dst_file)"
      dst_table "[Folder [dst_file]]" "map (Pair (Some (ascii ''Chat''))) (messages dst_file)"]
    h1 h2 h3 h4 dst_file_sf
  show ?thesis by blast
qed

end
